theory Spec2Isabelle
  imports Main "HOL-Library.Sublist" "HOL-Library.Multiset"
begin

section \<open>Python values the services handle\<close>

text \<open>
  A Python \<open>str\<close> is a sequence of Unicode code points, modelled as a list of natural
  numbers. String constants of the program are written with \<open>lit\<close>.
\<close>

type_synonym str = "nat list"

definition lit :: "string \<Rightarrow> str" where
  "lit s = map of_char s"

text \<open>\<open>s in t\<close> for two strings: \<open>s\<close> occurs in \<open>t\<close> as a contiguous block.\<close>

fun py_in :: "str \<Rightarrow> str \<Rightarrow> bool" where
  "py_in s [] = (s = [])"
| "py_in s (c # cs) = (prefix s (c # cs) \<or> py_in s cs)"

text \<open>
  The code points \<open>str.strip\<close> and \<open>str.split\<close> treat as white space: the ASCII controls
  and the space, NEL, the no-break space, and the Unicode space and line separators.
\<close>

definition is_space :: "nat \<Rightarrow> bool" where
  "is_space c \<longleftrightarrow>
     c \<in> set [0x09, 0x0A, 0x0B, 0x0C, 0x0D, 0x1C, 0x1D, 0x1E, 0x1F, 0x20, 0x85, 0xA0, 0x1680]
   \<or> (0x2000 \<le> c \<and> c \<le> 0x200A)
   \<or> c \<in> set [0x2028, 0x2029, 0x202F, 0x205F, 0x3000]"

definition strip :: "str \<Rightarrow> str" where
  "strip s = rev (dropWhile is_space (rev (dropWhile is_space s)))"

text \<open>\<open>s.split()\<close>: the maximal blocks of non-space characters, in order.\<close>

fun split_acc :: "str \<Rightarrow> str \<Rightarrow> str list" where
  "split_acc w [] = (if w = [] then [] else [rev w])"
| "split_acc w (c # cs) =
     (if is_space c then (if w = [] then split_acc [] cs else rev w # split_acc [] cs)
      else split_acc (c # w) cs)"

definition split :: "str \<Rightarrow> str list" where
  "split s = split_acc [] s"

text \<open>\<open>sep.join(xs)\<close>.\<close>

fun join :: "str \<Rightarrow> str list \<Rightarrow> str" where
  "join sep [] = []"
| "join sep [x] = x"
| "join sep (x # y # ys) = x @ sep @ join sep (y # ys)"

text \<open>
  Two operations belong to the interpreter and are taken as they come, as parameters of the
  model. \<open>lower\<close> is \<open>str.lower\<close>, which follows the case tables of the Unicode database.
  \<open>list_of_set xs\<close> is the order in which a \<open>set\<close> built by adding the elements of \<open>xs\<close>
  one after the other lists its elements, as in \<open>list(set(xs))\<close> and in a loop over
  \<open>set(xs)\<close>; it depends on the hash seed of the run.
\<close>

record python =
  lower :: "str \<Rightarrow> str"
  list_of_set :: "str list \<Rightarrow> str list"

text \<open>
  What is known of every interpreter: a set lists each of its elements once; on ASCII text
  \<open>str.lower\<close> changes the capital letters A to Z only; and since white space has no case,
  lowering and stripping can be done in either order.
\<close>

definition ascii_lower :: "str \<Rightarrow> str" where
  "ascii_lower s = map (\<lambda>c. if 0x41 \<le> c \<and> c \<le> 0x5A then c + 0x20 else c) s"

definition lists_sets :: "python \<Rightarrow> bool" where
  "lists_sets py \<longleftrightarrow> (\<forall>xs. set (list_of_set py xs) = set xs \<and> distinct (list_of_set py xs))"

definition lowers_ascii :: "python \<Rightarrow> bool" where
  "lowers_ascii py \<longleftrightarrow> (\<forall>s. (\<forall>c \<in> set s. c < 0x80) \<longrightarrow> lower py s = ascii_lower s)"

definition lower_keeps_margins :: "python \<Rightarrow> bool" where
  "lower_keeps_margins py \<longleftrightarrow> (\<forall>s. lower py (strip s) = strip (lower py s))"

text \<open>
  Values decoded from JSON (an upstream HTTP body, the grader's reply, the candidate data).
  Floating-point numbers are left out: every operation below treats them as it treats an
  \<open>int\<close>.
\<close>

datatype pyval =
    PNone
  | PBool bool
  | PInt int
  | PStr str
  | PList "pyval list"
  | PDict "(str \<times> pyval) list"

datatype exn =
    TypeError | AttributeError | KeyError | IndexError | NameError
  | OverflowError | OSError | JSONDecodeError | RequestException

text \<open>Running on with the result of a step unless the step raised.\<close>

definition and_then :: "exn + 'a \<Rightarrow> ('a \<Rightarrow> exn + 'b) \<Rightarrow> exn + 'b" where
  "and_then r f = (case r of Inl e \<Rightarrow> Inl e | Inr x \<Rightarrow> f x)"

text \<open>\<open>d.get(k, default)\<close> on a dict.\<close>

definition dget :: "(str \<times> pyval) list \<Rightarrow> str \<Rightarrow> pyval \<Rightarrow> pyval" where
  "dget d k dflt = (case map_of d k of Some v \<Rightarrow> v | None \<Rightarrow> dflt)"

text \<open>\<open>v.get(k, default)\<close> on a decoded value: only a dict has \<open>.get\<close>.\<close>

definition vget :: "pyval \<Rightarrow> str \<Rightarrow> pyval \<Rightarrow> exn + pyval" where
  "vget v k dflt = (case v of PDict d \<Rightarrow> Inr (dget d k dflt) | _ \<Rightarrow> Inl AttributeError)"

text \<open>Truth value of a JSON value, as \<open>if v\<close>, \<open>not v\<close> and \<open>v or w\<close> test it.\<close>

fun truthy :: "pyval \<Rightarrow> bool" where
  "truthy PNone = False"
| "truthy (PBool b) = b"
| "truthy (PInt n) = (n \<noteq> 0)"
| "truthy (PStr s) = (s \<noteq> [])"
| "truthy (PList xs) = (xs \<noteq> [])"
| "truthy (PDict d) = (d \<noteq> [])"

definition py_or :: "pyval \<Rightarrow> pyval \<Rightarrow> pyval" where
  "py_or a b = (if truthy a then a else b)"

text \<open>
  \<open>for x in v\<close> and \<open>xs += v\<close>: a list yields its items, a string its characters, a dict its
  keys; any other JSON value is not iterable.
\<close>

fun py_iter :: "pyval \<Rightarrow> exn + pyval list" where
  "py_iter (PList xs) = Inr xs"
| "py_iter (PStr s) = Inr (map (\<lambda>c. PStr [c]) s)"
| "py_iter (PDict d) = Inr (map (\<lambda>kv. PStr (fst kv)) d)"
| "py_iter _ = Inl TypeError"

text \<open>\<open>len(v)\<close>.\<close>

fun py_len :: "pyval \<Rightarrow> exn + nat" where
  "py_len (PList xs) = Inr (length xs)"
| "py_len (PStr s) = Inr (length s)"
| "py_len (PDict d) = Inr (length d)"
| "py_len _ = Inl TypeError"

text \<open>A loop that builds a list and is left by the first exception its body raises.\<close>

fun collect :: "('a \<Rightarrow> exn + 'b list) \<Rightarrow> 'a list \<Rightarrow> exn + 'b list" where
  "collect f [] = Inr []"
| "collect f (x # xs) =
     (case f x of
        Inl e \<Rightarrow> Inl e
      | Inr ys \<Rightarrow> (case collect f xs of Inl e \<Rightarrow> Inl e | Inr zs \<Rightarrow> Inr (ys @ zs)))"

text \<open>The items of \<open>d.get(k, [])\<close>, as \<open>for x in d.get(k, [])\<close> and \<open>xs += d.get(k, [])\<close> read them.\<close>

definition get_items :: "pyval \<Rightarrow> string \<Rightarrow> exn + pyval list" where
  "get_items d k = and_then (vget d (lit k) (PList [])) py_iter"


section \<open>Agentic answer pipeline (agentic\_rag\_service.py)\<close>

subsection \<open>The language-model client\<close>

text \<open>
  Every \<open>llm.invoke(prompt)\<close> is a call to the outside. The model keeps a log of the calls
  made so far; the reply may depend on that log and on the call, and is either the text of
  \<open>resp.content\<close> or the exception the client raised. Each call carries the place it was made
  from and the temperature the client was built with (in tenths).
\<close>

datatype call_site = Router | Generator | Grader | Corrector

record llm_call =
  site :: call_site
  temperature :: nat
  prompt :: str

type_synonym llm = "llm_call list \<Rightarrow> llm_call \<Rightarrow> exn + str"

text \<open>
  \<open>get_random_llm\<close>: the five \<open>GROQ_API_KEY_n\<close> variables, unset ones being \<open>None\<close>;
  \<open>random.choice\<close> of the keys that are set and non-empty raises \<open>IndexError\<close> when there is
  none. Which key is chosen does not show in the reply model.
\<close>

definition get_random_llm :: "str option list \<Rightarrow> exn + unit" where
  "get_random_llm api_keys =
     (if [k \<leftarrow> api_keys. k \<noteq> None \<and> k \<noteq> Some []] = [] then Inl IndexError else Inr ())"

definition invoke :: "llm \<Rightarrow> llm_call \<Rightarrow> llm_call list \<Rightarrow> (exn + str) \<times> llm_call list" where
  "invoke m c log = (m log c, log @ [c])"

definition ask ::
  "str option list \<Rightarrow> llm \<Rightarrow> llm_call \<Rightarrow> llm_call list \<Rightarrow> (exn + str) \<times> llm_call list" where
  "ask api_keys m c log =
     (case get_random_llm api_keys of Inl e \<Rightarrow> (Inl e, log) | Inr _ \<Rightarrow> invoke m c log)"

definition nl :: str where
  "nl = [0x0A]"

definition dq :: str where
  "dq = [0x22]"

definition em_dash :: str where
  "em_dash = [0x2014]"

subsection \<open>Router\<close>

definition route_prompt :: "str \<Rightarrow> str" where
  "route_prompt user_query =
     nl @ lit ''    You are a routing AI deciding which knowledge base is most relevant to the user query.''
   @ nl @ lit ''    Knowledge bases available:''
   @ nl @ lit ''    1. resume '' @ em_dash @ lit '' contains user's education, skills, and experiences.''
   @ nl @ lit ''    2. project '' @ em_dash @ lit '' contains GitHub project details and technical summaries.''
   @ nl
   @ nl @ lit ''    Query: '' @ dq @ user_query @ dq
   @ nl
   @ nl @ lit ''    Decide which knowledge base(s) to use. Answer with either:''
   @ nl @ lit ''    '' @ dq @ lit ''resume'' @ dq @ lit '', '' @ dq @ lit ''project'' @ dq @ lit '', or '' @ dq @ lit ''both'' @ dq @ lit ''.''
   @ nl @ lit ''    ''"

text \<open>Lines 39 to 45: the decision taken from the text of the router's reply.\<close>

definition route_decision :: "python \<Rightarrow> str \<Rightarrow> str" where
  "route_decision py content =
     (let answer = lower py (strip content)
      in if py_in (lit ''project'') answer \<and> py_in (lit ''resume'') answer then lit ''both''
         else if py_in (lit ''project'') answer then lit ''project''
         else lit ''resume'')"

definition route_call :: "str \<Rightarrow> llm_call" where
  "route_call user_query = \<lparr>site = Router, temperature = 7, prompt = route_prompt user_query\<rparr>"

definition route_query ::
  "python \<Rightarrow> str option list \<Rightarrow> llm \<Rightarrow> str \<Rightarrow> llm_call list
     \<Rightarrow> (exn + str) \<times> llm_call list" where
  "route_query py api_keys m user_query log =
     (case ask api_keys m (route_call user_query) log of
        (Inl e, log') \<Rightarrow> (Inl e, log')
      | (Inr content, log') \<Rightarrow> (Inr (route_decision py content), log'))"

subsection \<open>Retriever\<close>

text \<open>
  The two FAISS indices. \<open>None\<close> is an index whose path does not exist; an index that exists
  answers \<open>similarity_search(query, k=4)\<close> with the page contents of the documents found.
  Loading the embedding model and an index are taken to succeed.
\<close>

record vector_store =
  resume_index :: "(str \<Rightarrow> str list) option"
  project_index :: "(str \<Rightarrow> str list) option"

definition warning_sign :: str where
  "warning_sign = [0x26A0, 0xFE0F]"

definition no_embeddings :: str where
  "no_embeddings = warning_sign @ lit '' No embeddings found for the selected source.''"

definition answer_prompt :: "str \<Rightarrow> str \<Rightarrow> str" where
  "answer_prompt context user_query =
     nl @ lit ''    You are an AI assistant answering user queries based on provided context.''
   @ nl
   @ nl @ lit ''    Context:''
   @ nl @ lit ''    '' @ context
   @ nl
   @ nl @ lit ''    Question:''
   @ nl @ lit ''    '' @ user_query
   @ nl
   @ nl @ lit ''    Provide a clear, factual, well-structured answer.''
   @ nl @ lit ''    ''"

definition answer_call :: "str \<Rightarrow> str \<Rightarrow> llm_call" where
  "answer_call context user_query =
     \<lparr>site = Generator, temperature = 6, prompt = answer_prompt context user_query\<rparr>"

definition selected_dbs :: "vector_store \<Rightarrow> str \<Rightarrow> (str \<Rightarrow> str list) list" where
  "selected_dbs vs source =
     (if source \<in> set [lit ''resume'', lit ''both''] then (case resume_index vs of Some db \<Rightarrow> [db] | None \<Rightarrow> []) else [])
   @ (if source \<in> set [lit ''project'', lit ''both''] then (case project_index vs of Some db \<Rightarrow> [db] | None \<Rightarrow> []) else [])"

definition retrieve_answer ::
  "str option list \<Rightarrow> vector_store \<Rightarrow> llm \<Rightarrow> str \<Rightarrow> str \<Rightarrow> llm_call list
     \<Rightarrow> (exn + str) \<times> llm_call list" where
  "retrieve_answer api_keys vs m user_query source log =
     (case get_random_llm api_keys of
        Inl e \<Rightarrow> (Inl e, log)
      | Inr _ \<Rightarrow>
          (let dbs = selected_dbs vs source
           in if dbs = [] then (Inr no_embeddings, log)
              else
                (let context =
                       (if length dbs > 1
                        then join (nl @ nl) (concat (map (\<lambda>db. take 4 (db user_query)) dbs))
                        else join (nl @ nl) (take 4 ((hd dbs) user_query)))
                 in invoke m (answer_call context user_query) log)))"

subsection \<open>Grader\<close>

definition grade_prompt :: "str \<Rightarrow> str \<Rightarrow> str" where
  "grade_prompt user_query answer =
     nl @ lit ''    You are a strict answer evaluator.''
   @ nl
   @ nl @ lit ''    Question: '' @ user_query
   @ nl @ lit ''    Answer: '' @ answer
   @ nl
   @ nl @ lit ''    Evaluate if the answer fully and accurately addresses the user's question.''
   @ nl @ lit ''    Reply with JSON:''
   @ nl @ lit ''    {''
   @ nl @ lit ''      '' @ dq @ lit ''grade'' @ dq @ lit '': '' @ dq @ lit ''pass'' @ dq @ lit '' or '' @ dq @ lit ''fail'' @ dq @ lit '',''
   @ nl @ lit ''      '' @ dq @ lit ''feedback'' @ dq @ lit '': '' @ dq @ lit ''why you graded it so'' @ dq
   @ nl @ lit ''    }''
   @ nl @ lit ''    ''"

text \<open>
  \<open>re.search(r'\{[\s\S]*\}', text)\<close>: the leftmost match starts at the first opening brace
  and, the star being greedy, runs to the last closing brace after it; there is no match
  when no closing brace follows the first opening one.
\<close>

definition re_search_braces :: "str \<Rightarrow> str option" where
  "re_search_braces text =
     (let rest = dropWhile (\<lambda>c. c \<noteq> 0x7B) text
      in if 0x7D \<in> set rest
         then Some (rev (dropWhile (\<lambda>c. c \<noteq> 0x7D) (rev rest)))
         else None)"

text \<open>
  Lines 116 to 124. \<open>json.loads\<close> is the standard library's: \<open>loads\<close> gives the decoded
  value, or \<open>None\<close> where it raises. The feedback is whatever value the reply holds under
  \<open>"feedback"\<close>; a decoded value without \<open>.get\<close> raises inside the \<open>try\<close>.
\<close>

definition grade_reply :: "(str \<Rightarrow> pyval option) \<Rightarrow> str \<Rightarrow> bool \<times> pyval" where
  "grade_reply loads text =
     (case re_search_braces text of
        Some block \<Rightarrow>
          (case loads block of
             Some (PDict result) \<Rightarrow>
               (dget result (lit ''grade'') (PStr (lit ''fail'')) = PStr (lit ''pass''),
                dget result (lit ''feedback'') (PStr []))
           | _ \<Rightarrow> (False, PStr (lit ''Invalid grader output'')))
      | None \<Rightarrow> (False, PStr (lit ''Could not parse grader response.'')))"

definition grade_call :: "str \<Rightarrow> str \<Rightarrow> llm_call" where
  "grade_call user_query answer =
     \<lparr>site = Grader, temperature = 0, prompt = grade_prompt user_query answer\<rparr>"

definition grade_answer ::
  "str option list \<Rightarrow> llm \<Rightarrow> (str \<Rightarrow> pyval option) \<Rightarrow> str \<Rightarrow> str \<Rightarrow> llm_call list
     \<Rightarrow> (exn + bool \<times> pyval) \<times> llm_call list" where
  "grade_answer api_keys m loads user_query answer log =
     (case ask api_keys m (grade_call user_query answer) log of
        (Inl e, log') \<Rightarrow> (Inl e, log')
      | (Inr text, log') \<Rightarrow> (Inr (grade_reply loads text), log'))"

subsection \<open>Pipeline\<close>

text \<open>
  The f-string of line 138 formats the feedback with \<open>str\<close>: a string stands for itself,
  and \<open>fmt\<close> is Python's own rendering of any other value.
\<close>

definition py_str :: "(pyval \<Rightarrow> str) \<Rightarrow> pyval \<Rightarrow> str" where
  "py_str fmt v = (case v of PStr s \<Rightarrow> s | _ \<Rightarrow> fmt v)"

definition correction_prompt :: "str \<Rightarrow> str" where
  "correction_prompt feedback =
     lit ''Your last answer was graded as insufficient because: '' @ feedback @ lit ''. Please correct it.''"

definition correction_call :: "str \<Rightarrow> llm_call" where
  "correction_call feedback =
     \<lparr>site = Corrector, temperature = 7, prompt = correction_prompt feedback\<rparr>"

definition agentic_rag_pipeline ::
  "python \<Rightarrow> str option list \<Rightarrow> vector_store \<Rightarrow> llm \<Rightarrow> (str \<Rightarrow> pyval option) \<Rightarrow> (pyval \<Rightarrow> str)
     \<Rightarrow> str \<Rightarrow> llm_call list \<Rightarrow> (exn + str) \<times> llm_call list" where
  "agentic_rag_pipeline py api_keys vs m loads fmt user_query log =
     (case route_query py api_keys m user_query log of
        (Inl e, log1) \<Rightarrow> (Inl e, log1)
      | (Inr source, log1) \<Rightarrow>
          (case retrieve_answer api_keys vs m user_query source log1 of
             (Inl e, log2) \<Rightarrow> (Inl e, log2)
           | (Inr answer, log2) \<Rightarrow>
               (case grade_answer api_keys m loads user_query answer log2 of
                  (Inl e, log3) \<Rightarrow> (Inl e, log3)
                | (Inr (passed, feedback), log3) \<Rightarrow>
                    (if \<not> passed
                     then ask api_keys m (correction_call (py_str fmt feedback)) log3
                     else (Inr answer, log3)))))"



section \<open>Job recommendation service (job\_recommendation\_service.py)\<close>

subsection \<open>Profile extraction\<close>

text \<open>
  The candidate data is a decoded JSON value that reaches the service unchecked, so every
  attribute access, iteration and index of the code can raise.
\<close>

record profile =
  skills :: "str list"
  experience_years :: nat
  education_level :: pyval
  preferred_locations :: "str list"
  job_titles :: "str list"

text \<open>Lines 54 to 58: \<open>item.split()\<close> needs a string.\<close>

definition item_words :: "pyval \<Rightarrow> exn + pyval list" where
  "item_words item =
     (case item of
        PStr s \<Rightarrow> Inr [PStr word. word \<leftarrow> split s, length word > 3]
      | _ \<Rightarrow> Inl AttributeError)"

definition experience_words :: "pyval \<Rightarrow> exn + pyval list" where
  "experience_words ex = and_then (get_items ex ''items'') (collect item_words)"

text \<open>Lines 42 to 58: the raw skill values, in the order the code appends them.\<close>

definition raw_skills :: "pyval \<Rightarrow> exn + pyval list" where
  "raw_skills user_data =
     and_then (get_items user_data ''languages'') (\<lambda>ls.
     and_then (get_items user_data ''tools'') (\<lambda>ts.
     and_then (get_items user_data ''coursework'') (\<lambda>cs.
     and_then (get_items user_data ''projects'') (\<lambda>ps.
     and_then (collect (\<lambda>p. get_items p ''technologies'') ps) (\<lambda>techs.
     and_then (get_items user_data ''experience'') (\<lambda>es.
     and_then (collect experience_words es) (\<lambda>ws.
       Inr (ls @ ts @ cs @ techs @ ws))))))))"

text \<open>Line 61: \<open>[s.lower() for s in skills if isinstance(s, str)]\<close>.\<close>

fun normalize_skills :: "python \<Rightarrow> pyval list \<Rightarrow> str list" where
  "normalize_skills py [] = []"
| "normalize_skills py (PStr s # vs) = lower py s # normalize_skills py vs"
| "normalize_skills py (_ # vs) = normalize_skills py vs"

text \<open>
  Lines 72 to 74: \<open>education[0]\<close> is the first item of a list and the first character of a
  string, a missing key of a dict, and an error on any other value that is true.
\<close>

definition education_level_of :: "pyval \<Rightarrow> exn + pyval" where
  "education_level_of ed =
     (if truthy ed
      then (case ed of
              PList (e # _) \<Rightarrow> vget e (lit ''degree'') (PStr (lit ''B.Tech''))
            | PStr _ \<Rightarrow> Inl AttributeError
            | PDict _ \<Rightarrow> Inl KeyError
            | _ \<Rightarrow> Inl TypeError)
      else Inr (PStr []))"

definition any_in :: "str list \<Rightarrow> str \<Rightarrow> bool" where
  "any_in xs t = (\<exists>x \<in> set xs. py_in x t)"

text \<open>Lines 84 to 89: what a project with lowercased title \<open>t\<close> adds to \<open>inferred_titles\<close>.\<close>

definition titles_for :: "str \<Rightarrow> str list" where
  "titles_for t =
     (if any_in [lit ''ml'', lit ''machine learning'', lit ''data''] t
      then [lit ''ML Engineer'', lit ''Data Scientist''] else [])
   @ (if any_in [lit ''ai'', lit ''nlp'', lit ''rag'', lit ''llm'', lit ''langchain''] t
      then [lit ''AI Engineer'', lit ''NLP Engineer''] else [])
   @ (if any_in [lit ''full stack'', lit ''backend'', lit ''web''] t
      then [lit ''Software Engineer'', lit ''Backend Engineer''] else [])"

text \<open>Line 82: \<open>proj.get("title", "").lower()\<close> needs a dict and a string under the key.\<close>

definition project_titles :: "python \<Rightarrow> pyval \<Rightarrow> exn + str list" where
  "project_titles py proj =
     and_then (vget proj (lit ''title'') (PStr []))
       (\<lambda>v. case v of PStr t \<Rightarrow> Inr (titles_for (lower py t)) | _ \<Rightarrow> Inl AttributeError)"

text \<open>Lines 79 to 89: the titles added to the set, in the order they are added.\<close>

definition inferred_titles :: "python \<Rightarrow> pyval \<Rightarrow> exn + str list" where
  "inferred_titles py user_data =
     and_then (get_items user_data ''projects'') (collect (project_titles py))"

definition extract_user_profile :: "python \<Rightarrow> pyval \<Rightarrow> exn + profile" where
  "extract_user_profile py user_data =
     and_then (raw_skills user_data) (\<lambda>raw.
     and_then (vget user_data (lit ''experience'') (PList [])) (\<lambda>ex.
     and_then (py_len ex) (\<lambda>years.
     and_then (vget user_data (lit ''education'') (PList [])) (\<lambda>ed.
     and_then (education_level_of ed) (\<lambda>level.
     and_then (inferred_titles py user_data) (\<lambda>inferred.
       Inr \<lparr>skills = list_of_set py (normalize_skills py raw),
            experience_years = years,
            education_level = level,
            preferred_locations = [lit ''Remote'', lit ''India''],
            job_titles =
              (if inferred = [] then list_of_set py [lit ''Software Engineer'', lit ''AI Engineer'']
               else list_of_set py inferred)\<rparr>))))))"

subsection \<open>Job records and the three adapters\<close>

text \<open>
  A job is the dict the adapters build, later extended by the ranking. A key may be absent
  (\<open>None\<close>); the value under the first seven keys is whatever the upstream JSON held there,
  since the adapters copy it unchecked.
\<close>

record job =
  title :: "pyval option"
  company :: "pyval option"
  location :: "pyval option"
  description :: "pyval option"
  apply_link :: "pyval option"
  posted_date :: "pyval option"
  source :: "pyval option"
  matched_skills :: "str list option"
  relevance_score :: "int option"

text \<open>
  \<open>requests.get(...)\<close> followed by \<open>r.json()\<close> is one call to the outside: it yields the
  decoded body, or the exception either step raised. The reply may depend on the requests made
  before.
\<close>

record request =
  url :: str
  headers :: "(str \<times> str) list"
  params :: "(str \<times> pyval) list"

type_synonym network = "request list \<Rightarrow> request \<Rightarrow> exn + pyval"

record env =
  RAPIDAPI_KEY :: "str option"
  ADZUNA_APP_ID :: "str option"
  ADZUNA_API_KEY :: "str option"

definition http_get_json :: "network \<Rightarrow> request \<Rightarrow> request list \<Rightarrow> (exn + pyval) \<times> request list" where
  "http_get_json net r log = (net log r, log @ [r])"

text \<open>\<open>not v\<close> for the value of an environment variable.\<close>

definition unset :: "str option \<Rightarrow> bool" where
  "unset v \<longleftrightarrow> v = None \<or> v = Some []"

text \<open>\<open>try: ... except Exception: return []\<close>.\<close>

definition except_empty :: "exn + 'a list \<Rightarrow> exn + 'a list" where
  "except_empty r = (case r of Inl e \<Rightarrow> Inr [] | Inr v \<Rightarrow> Inr v)"

definition jsearch_job :: "pyval \<Rightarrow> exn + job list" where
  "jsearch_job j =
     (case j of
        PDict d \<Rightarrow>
          Inr [\<lparr>title = Some (dget d (lit ''job_title'') (PStr [])),
                company = Some (dget d (lit ''employer_name'') (PStr [])),
                location = Some (py_or (dget d (lit ''job_city'') (PStr [])) (dget d (lit ''job_country'') (PStr []))),
                description = Some (dget d (lit ''job_description'') (PStr [])),
                apply_link = Some (dget d (lit ''job_apply_link'') (PStr [])),
                posted_date = Some (dget d (lit ''job_posted_at_datetime_utc'') (PStr [])),
                source = Some (PStr (lit ''JSearch'')),
                matched_skills = None, relevance_score = None\<rparr>]
      | _ \<Rightarrow> Inl AttributeError)"

definition jsearch_jobs :: "pyval \<Rightarrow> exn + job list" where
  "jsearch_jobs data =
     (case vget data (lit ''data'') (PList []) of
        Inl e \<Rightarrow> Inl e
      | Inr v \<Rightarrow> (case py_iter v of Inl e \<Rightarrow> Inl e | Inr js \<Rightarrow> collect jsearch_job js))"

definition jsearch_request :: "env \<Rightarrow> str \<Rightarrow> request" where
  "jsearch_request ev query =
     \<lparr>url = lit ''https://jsearch.p.rapidapi.com/search'',
      headers = [(lit ''X-RapidAPI-Key'', the (RAPIDAPI_KEY ev)),
                 (lit ''X-RapidAPI-Host'', lit ''jsearch.p.rapidapi.com'')],
      params = [(lit ''query'', PStr query), (lit ''page'', PInt 1)]\<rparr>"

definition search_jobs_jsearch ::
  "env \<Rightarrow> network \<Rightarrow> str \<Rightarrow> request list \<Rightarrow> (exn + job list) \<times> request list" where
  "search_jobs_jsearch ev net query log =
     (if unset (RAPIDAPI_KEY ev) then (Inr [], log)
      else
        (case http_get_json net (jsearch_request ev query) log of
           (Inl e, log') \<Rightarrow> (Inr [], log')
         | (Inr data, log') \<Rightarrow> (except_empty (jsearch_jobs data), log')))"

text \<open>\<open>v[1:]\<close>: a list and a str can be sliced, no other decoded value can.\<close>

fun slice_from_1 :: "pyval \<Rightarrow> exn + pyval" where
  "slice_from_1 (PList xs) = Inr (PList (drop 1 xs))"
| "slice_from_1 (PStr s) = Inr (PStr (drop 1 s))"
| "slice_from_1 _ = Inl TypeError"

definition remoteok_job :: "python \<Rightarrow> str \<Rightarrow> pyval \<Rightarrow> exn + job list" where
  "remoteok_job py keywords j =
     (case j of
        PDict d \<Rightarrow>
          (case dget d (lit ''position'') (PStr []) of
             PStr t \<Rightarrow>
               (if py_in (lower py keywords) (lower py t)
                then Inr [\<lparr>title = Some (PStr t),
                           company = Some (dget d (lit ''company'') (PStr [])),
                           location = Some (dget d (lit ''location'') (PStr (lit ''Remote''))),
                           description = Some (dget d (lit ''description'') (PStr [])),
                           apply_link = Some (dget d (lit ''url'') (PStr [])),
                           posted_date = Some (dget d (lit ''date'') (PStr [])),
                           source = Some (PStr (lit ''RemoteOK'')),
                           matched_skills = None, relevance_score = None\<rparr>]
                else Inr [])
           | _ \<Rightarrow> Inl AttributeError)
      | _ \<Rightarrow> Inl AttributeError)"

definition remoteok_jobs :: "python \<Rightarrow> str \<Rightarrow> pyval \<Rightarrow> exn + job list" where
  "remoteok_jobs py keywords jobs_data =
     (case slice_from_1 jobs_data of
        Inl e \<Rightarrow> Inl e
      | Inr v \<Rightarrow> (case py_iter v of Inl e \<Rightarrow> Inl e | Inr js \<Rightarrow> collect (remoteok_job py keywords) js))"

definition remoteok_request :: request where
  "remoteok_request = \<lparr>url = lit ''https://remoteok.com/api'', headers = [], params = []\<rparr>"

definition search_jobs_remoteok ::
  "python \<Rightarrow> network \<Rightarrow> str \<Rightarrow> request list \<Rightarrow> (exn + job list) \<times> request list" where
  "search_jobs_remoteok py net keywords log =
     (case http_get_json net remoteok_request log of
        (Inl e, log') \<Rightarrow> (Inr [], log')
      | (Inr jobs_data, log') \<Rightarrow> (except_empty (remoteok_jobs py keywords jobs_data), log'))"

definition adzuna_job :: "pyval \<Rightarrow> exn + job list" where
  "adzuna_job j =
     (case j of
        PDict d \<Rightarrow>
          (case vget (dget d (lit ''company'') (PDict [])) (lit ''display_name'') (PStr []) of
             Inl e \<Rightarrow> Inl e
           | Inr c \<Rightarrow>
               (case vget (dget d (lit ''location'') (PDict [])) (lit ''display_name'') (PStr []) of
                  Inl e \<Rightarrow> Inl e
                | Inr l \<Rightarrow>
                    Inr [\<lparr>title = Some (dget d (lit ''title'') (PStr [])),
                          company = Some c,
                          location = Some l,
                          description = Some (dget d (lit ''description'') (PStr [])),
                          apply_link = Some (dget d (lit ''redirect_url'') (PStr [])),
                          posted_date = Some (dget d (lit ''created'') (PStr [])),
                          source = Some (PStr (lit ''Adzuna'')),
                          matched_skills = None, relevance_score = None\<rparr>]))
      | _ \<Rightarrow> Inl AttributeError)"

definition adzuna_jobs :: "pyval \<Rightarrow> exn + job list" where
  "adzuna_jobs data =
     (case vget data (lit ''results'') (PList []) of
        Inl e \<Rightarrow> Inl e
      | Inr v \<Rightarrow> (case py_iter v of Inl e \<Rightarrow> Inl e | Inr js \<Rightarrow> collect adzuna_job js))"

definition adzuna_request :: "env \<Rightarrow> str \<Rightarrow> request" where
  "adzuna_request ev keywords =
     \<lparr>url = lit ''https://api.adzuna.com/v1/api/jobs/in/search/1'',
      headers = [],
      params = [(lit ''app_id'', PStr (the (ADZUNA_APP_ID ev))),
                (lit ''app_key'', PStr (the (ADZUNA_API_KEY ev))),
                (lit ''what'', PStr keywords),
                (lit ''content-type'', PStr (lit ''application/json''))]\<rparr>"

definition search_jobs_adzuna ::
  "env \<Rightarrow> network \<Rightarrow> str \<Rightarrow> request list \<Rightarrow> (exn + job list) \<times> request list" where
  "search_jobs_adzuna ev net keywords log =
     (if unset (ADZUNA_APP_ID ev) \<or> unset (ADZUNA_API_KEY ev) then (Inr [], log)
      else
        (case http_get_json net (adzuna_request ev keywords) log of
           (Inl e, log') \<Rightarrow> (Inr [], log')
         | (Inr data, log') \<Rightarrow> (except_empty (adzuna_jobs data), log')))"

subsection \<open>Deduplication (lines 270 to 276)\<close>

text \<open>
  \<open>job["title"].lower()\<close> raises \<open>KeyError\<close> on a job without the key and
  \<open>AttributeError\<close> on a value that is not a str; the title is looked at before the
  company.
\<close>

definition job_key :: "python \<Rightarrow> job \<Rightarrow> exn + str \<times> str" where
  "job_key py j =
     (case title j of
        None \<Rightarrow> Inl KeyError
      | Some (PStr t) \<Rightarrow>
          (case company j of
             None \<Rightarrow> Inl KeyError
           | Some (PStr c) \<Rightarrow> Inr (lower py t, lower py c)
           | Some _ \<Rightarrow> Inl AttributeError)
      | Some _ \<Rightarrow> Inl AttributeError)"

text \<open>
  The dict \<open>unique\<close> is a list of key and job pairs in insertion order, which is the order
  \<open>unique.values()\<close> lists them in.
\<close>

fun dedupe_loop ::
  "python \<Rightarrow> ((str \<times> str) \<times> job) list \<Rightarrow> job list
     \<Rightarrow> exn + ((str \<times> str) \<times> job) list" where
  "dedupe_loop py unique [] = Inr unique"
| "dedupe_loop py unique (j # js) =
     (case job_key py j of
        Inl e \<Rightarrow> Inl e
      | Inr k \<Rightarrow>
          (if map_of unique k = None then dedupe_loop py (unique @ [(k, j)]) js
           else dedupe_loop py unique js))"

definition dedupe :: "python \<Rightarrow> job list \<Rightarrow> exn + job list" where
  "dedupe py all_jobs =
     (case dedupe_loop py [] all_jobs of Inl e \<Rightarrow> Inl e | Inr unique \<Rightarrow> Inr (map snd unique))"

subsection \<open>Ranking\<close>

definition synonyms :: "(str \<times> str list) list" where
  "synonyms =
     [(lit ''python'', [lit ''python'', lit ''pandas'', lit ''numpy'', lit ''fastapi'', lit ''flask'']),
      (lit ''docker'', [lit ''docker'', lit ''container'', lit ''kubernetes'', lit ''k8s'']),
      (lit ''machine learning'', [lit ''ml'', lit ''machine learning'', lit ''deep learning'', lit ''neural'']),
      (lit ''ai'', [lit ''ai'', lit ''llm'', lit ''rag'', lit ''gpt'', lit ''bert'']),
      (lit ''nlp'', [lit ''nlp'', lit ''transformer'', lit ''token'']),
      (lit ''cloud'', [lit ''aws'', lit ''azure'', lit ''gcp'', lit ''cloud'']),
      (lit ''database'', [lit ''postgres'', lit ''mysql'', lit ''mongodb'', lit ''sql''])]"

text \<open>
  Line 218. \<open>+\<close> between a str and a value that is not a str raises \<open>TypeError\<close>; an
  absent key reads as the empty str.
\<close>

definition get_val :: "pyval option \<Rightarrow> pyval \<Rightarrow> pyval" where
  "get_val v dflt = (case v of Some x \<Rightarrow> x | None \<Rightarrow> dflt)"

definition job_text :: "python \<Rightarrow> job \<Rightarrow> exn + str" where
  "job_text py j =
     (case get_val (title j) (PStr []) of
        PStr t \<Rightarrow>
          (case get_val (description j) (PStr []) of
             PStr d \<Rightarrow> Inr (lower py (t @ lit '' '' @ d))
           | _ \<Rightarrow> Inl TypeError)
      | _ \<Rightarrow> Inl TypeError)"

text \<open>Lines 231 to 235: the inner loop over one concept's words, left at the first hit.\<close>

fun fuzzy_words :: "str \<Rightarrow> str list \<Rightarrow> str \<Rightarrow> str list \<times> int \<Rightarrow> str list \<times> int" where
  "fuzzy_words key [] text st = st"
| "fuzzy_words key (w # ws) text st =
     (if py_in w text then (fst st @ [key], snd st + 5) else fuzzy_words key ws text st)"

text \<open>Line 230: the loop over the concepts, in the order of the table.\<close>

fun fuzzy_loop :: "(str \<times> str list) list \<Rightarrow> str \<Rightarrow> str list \<times> int \<Rightarrow> str list \<times> int" where
  "fuzzy_loop [] text st = st"
| "fuzzy_loop (kw # rest) text st = fuzzy_loop rest text (fuzzy_words (fst kw) (snd kw) text st)"

text \<open>Lines 240 to 242.\<close>

fun title_loop :: "python \<Rightarrow> str list \<Rightarrow> str \<Rightarrow> int \<Rightarrow> int" where
  "title_loop py [] job_title score = score"
| "title_loop py (t # ts) job_title score =
     title_loop py ts job_title
       (if py_in (lower py t) (lower py job_title) then score + 15 else score)"

definition title_str :: "job \<Rightarrow> str" where
  "title_str j = (case get_val (title j) (PStr []) of PStr t \<Rightarrow> t | _ \<Rightarrow> [])"

text \<open>
  One round of the loop of lines 216 to 252: the job with its two new entries, or the
  exception raised. The debug output of line 251 slices \<open>job.get("description")\<close>, which is
  \<open>None\<close> for a job without the key.
\<close>

definition score_job :: "python \<Rightarrow> profile \<Rightarrow> job \<Rightarrow> exn + job" where
  "score_job py p j =
     (case job_text py j of
        Inl e \<Rightarrow> Inl e
      | Inr text \<Rightarrow>
          (let user_skills = list_of_set py (skills p);
               exact_matches = [s \<leftarrow> user_skills. py_in s text];
               score = 0 + int (length exact_matches) * 10;
               fz = fuzzy_loop synonyms text ([], score);
               score = title_loop py (job_titles p) (title_str j) (snd fz);
               j' = j\<lparr>matched_skills := Some (list_of_set py (exact_matches @ fst fz)),
                       relevance_score := Some score\<rparr>
           in (case description j of Some (PStr d) \<Rightarrow> Inr j' | _ \<Rightarrow> Inl TypeError)))"

fun score_all :: "python \<Rightarrow> profile \<Rightarrow> job list \<Rightarrow> exn + job list" where
  "score_all py p [] = Inr []"
| "score_all py p (j # js) =
     (case score_job py p j of
        Inl e \<Rightarrow> Inl e
      | Inr j' \<Rightarrow> (case score_all py p js of Inl e \<Rightarrow> Inl e | Inr js' \<Rightarrow> Inr (j' # js')))"

text \<open>
  \<open>sorted(jobs, key=lambda x: x["relevance_score"], reverse=True)\<close>. The key raises
  \<open>KeyError\<close> on a job without a score. With \<open>reverse=True\<close> CPython reverses the list,
  sorts it stably in ascending order of the key, and reverses the result.
\<close>

definition score_key :: "job \<Rightarrow> int" where
  "score_key j = (case relevance_score j of Some n \<Rightarrow> n | None \<Rightarrow> 0)"

definition sorted_reverse :: "job list \<Rightarrow> exn + job list" where
  "sorted_reverse js =
     (if \<exists>j \<in> set js. relevance_score j = None then Inl KeyError
      else Inr (rev (sort_key score_key (rev js))))"

definition rank_jobs_by_relevance :: "python \<Rightarrow> job list \<Rightarrow> profile \<Rightarrow> exn + job list" where
  "rank_jobs_by_relevance py jobs p =
     (case score_all py p jobs of Inl e \<Rightarrow> Inl e | Inr scored \<Rightarrow> sorted_reverse scored)"

subsection \<open>Cache\<close>

text \<open>
  The cache file is absent, or holds text \<open>json.load\<close> rejects, or holds the document
  \<open>save_jobs_cache\<close> wrote: a timestamp and the jobs. \<open>json.dump\<close> followed by \<open>json.load\<close>
  gives back the jobs as they were, and \<open>isoformat\<close> followed by \<open>fromisoformat\<close> the
  timestamp, so the document is kept decoded. Time is in microseconds. Writing fails with
  \<open>OSError\<close> where the directory or the file cannot be written.
\<close>

datatype cache_file = Absent | Garbled | Saved int "job list"

definition save_jobs_cache :: "bool \<Rightarrow> int \<Rightarrow> job list \<Rightarrow> cache_file \<Rightarrow> exn + cache_file" where
  "save_jobs_cache writable now jobs f = (if writable then Inr (Saved now jobs) else Inl OSError)"

text \<open>
  \<open>timedelta(hours=h)\<close> raises \<open>OverflowError\<close> unless the whole days of the span are within
  999999999 either way.
\<close>

definition timedelta_hours :: "int \<Rightarrow> exn + int" where
  "timedelta_hours h =
     (if - 999999999 \<le> h div 24 \<and> h div 24 \<le> 999999999 then Inr (h * 3600000000)
      else Inl OverflowError)"

definition load_jobs_cache :: "int \<Rightarrow> int \<Rightarrow> cache_file \<Rightarrow> exn + job list" where
  "load_jobs_cache now max_age_hours f =
     (case f of
        Absent \<Rightarrow> Inr []
      | Garbled \<Rightarrow> Inl JSONDecodeError
      | Saved ts jobs \<Rightarrow>
          (case timedelta_hours max_age_hours of
             Inl e \<Rightarrow> Inl e
           | Inr limit \<Rightarrow> (if now - ts > limit then Inr [] else Inr jobs)))"

subsection \<open>Top level\<close>

text \<open>\<open>xs[:n]\<close> for an integer \<open>n\<close>, a negative one counting from the end.\<close>

definition slice_to :: "int \<Rightarrow> 'a list \<Rightarrow> 'a list" where
  "slice_to n xs = (if 0 \<le> n then take (nat n) xs else take (length xs - nat (- n)) xs)"

text \<open>Lines 265 to 268.\<close>

fun fetch_loop ::
  "python \<Rightarrow> env \<Rightarrow> network \<Rightarrow> str list \<Rightarrow> job list \<Rightarrow> request list
     \<Rightarrow> (exn + job list) \<times> request list" where
  "fetch_loop py ev net [] all_jobs log = (Inr all_jobs, log)"
| "fetch_loop py ev net (t # ts) all_jobs log =
     (case search_jobs_jsearch ev net t log of
        (Inl e, log1) \<Rightarrow> (Inl e, log1)
      | (Inr js1, log1) \<Rightarrow>
          (case search_jobs_remoteok py net t log1 of
             (Inl e, log2) \<Rightarrow> (Inl e, log2)
           | (Inr js2, log2) \<Rightarrow>
               (case search_jobs_adzuna ev net t log2 of
                  (Inl e, log3) \<Rightarrow> (Inl e, log3)
                | (Inr js3, log3) \<Rightarrow> fetch_loop py ev net ts (all_jobs @ js1 @ js2 @ js3) log3)))"

text \<open>
  The names the module binds at its top level (lines 1 to 15). A name a method uses without
  binding it itself is looked up there and then among the builtins, which hold no \<open>st\<close>;
  an unbound name raises \<open>NameError\<close>.
\<close>

definition module_globals :: "string list" where
  "module_globals =
     [''os'', ''json'', ''requests'', ''List'', ''Dict'', ''datetime'', ''timedelta'',
      ''load_dotenv'', ''RAPIDAPI_KEY'', ''ADZUNA_APP_ID'', ''ADZUNA_API_KEY'',
      ''JobRecommendationService'']"

definition builtin_functions :: "string list" where
  "builtin_functions =
     [''abs'', ''aiter'', ''all'', ''anext'', ''any'', ''ascii'', ''bin'', ''bool'', ''breakpoint'',
      ''bytearray'', ''bytes'', ''callable'', ''chr'', ''classmethod'', ''compile'', ''complex'',
      ''delattr'', ''dict'', ''dir'', ''divmod'', ''enumerate'', ''eval'', ''exec'', ''filter'',
      ''float'', ''format'', ''frozenset'', ''getattr'', ''globals'', ''hasattr'', ''hash'', ''help'',
      ''hex'', ''id'', ''input'', ''int'', ''isinstance'', ''issubclass'', ''iter'', ''len'', ''list'',
      ''locals'', ''map'', ''max'', ''memoryview'', ''min'', ''next'', ''object'', ''oct'', ''open'',
      ''ord'', ''pow'', ''print'', ''property'', ''range'', ''repr'', ''reversed'', ''round'', ''set'',
      ''setattr'', ''slice'', ''sorted'', ''staticmethod'', ''str'', ''sum'', ''super'', ''tuple'',
      ''type'', ''vars'', ''zip'']"

definition lookup_name :: "string \<Rightarrow> exn + unit" where
  "lookup_name n =
     (if n \<in> set module_globals \<or> n \<in> set builtin_functions then Inr () else Inl NameError)"

text \<open>
  The state outside the service that a call changes: the requests sent and the cache file.
\<close>

record world =
  sent :: "request list"
  cache :: cache_file

definition get_recommended_jobs ::
  "python \<Rightarrow> env \<Rightarrow> network \<Rightarrow> bool \<Rightarrow> int \<Rightarrow> pyval \<Rightarrow> int \<Rightarrow> world
     \<Rightarrow> (exn + job list) \<times> world" where
  "get_recommended_jobs py ev net writable now user_data max_results w =
     (case extract_user_profile py user_data of
        Inl e \<Rightarrow> (Inl e, w)
      | Inr p \<Rightarrow>
          (case fetch_loop py ev net (slice_to 3 (job_titles p)) [] (sent w) of
             (Inl e, log) \<Rightarrow> (Inl e, w\<lparr>sent := log\<rparr>)
           | (Inr all_jobs, log) \<Rightarrow>
               (case dedupe py all_jobs of
                  Inl e \<Rightarrow> (Inl e, w\<lparr>sent := log\<rparr>)
                | Inr unique \<Rightarrow>
                    (case rank_jobs_by_relevance py unique p of
                       Inl e \<Rightarrow> (Inl e, w\<lparr>sent := log\<rparr>)
                     | Inr ranked \<Rightarrow>
                         (case save_jobs_cache writable now (slice_to max_results ranked) (cache w) of
                            Inl e \<Rightarrow> (Inl e, w\<lparr>sent := log\<rparr>)
                          | Inr f \<Rightarrow>
                              (case lookup_name ''st'' of
                                 Inl e \<Rightarrow> (Inl e, w\<lparr>sent := log, cache := f\<rparr>)
                               | Inr _ \<Rightarrow>
                                   (Inr (slice_to max_results ranked),
                                    w\<lparr>sent := log, cache := f\<rparr>)))))))"

subsection \<open>Inputs on which the loops run to their end\<close>

text \<open>
  A job can be scored when its title is absent or a string and its description is a string;
  it has a deduplication key when title and company are both strings.
\<close>

definition is_str :: "pyval \<Rightarrow> bool" where
  "is_str v = (case v of PStr s \<Rightarrow> True | _ \<Rightarrow> False)"


definition scorable :: "job \<Rightarrow> bool" where
  "scorable j \<longleftrightarrow>
     (case title j of None \<Rightarrow> True | Some v \<Rightarrow> is_str v)
   \<and> (case description j of None \<Rightarrow> False | Some v \<Rightarrow> is_str v)"

definition has_key :: "job \<Rightarrow> bool" where
  "has_key j \<longleftrightarrow>
     (case title j of None \<Rightarrow> False | Some v \<Rightarrow> is_str v)
   \<and> (case company j of None \<Rightarrow> False | Some v \<Rightarrow> is_str v)"







subsection \<open>Example data\<close>

text \<open>
  An interpreter for the examples, whose text is all ASCII: it lowers the letters A to Z and
  lists a set in order of first insertion.
\<close>

definition example_python :: python where
  "example_python = \<lparr>lower = ascii_lower, list_of_set = remdups\<rparr>"

text \<open>A posting as \<open>search_jobs_remoteok\<close> builds it, and a small ranking run.\<close>

definition posting :: "string \<Rightarrow> string \<Rightarrow> string \<Rightarrow> job" where
  "posting t c d =
     \<lparr>title = Some (PStr (lit t)), company = Some (PStr (lit c)),
      location = Some (PStr (lit ''Remote'')), description = Some (PStr (lit d)),
      apply_link = Some (PStr []), posted_date = Some (PStr []),
      source = Some (PStr (lit ''RemoteOK'')), matched_skills = None, relevance_score = None\<rparr>"

definition scored :: "job \<Rightarrow> string list \<Rightarrow> int \<Rightarrow> job" where
  "scored j ms n = j\<lparr>matched_skills := Some (map lit ms), relevance_score := Some n\<rparr>"

definition example_profile :: profile where
  "example_profile =
     \<lparr>skills = [lit ''python'', lit ''docker''], experience_years = 1,
      education_level = PStr (lit ''B.Tech''),
      preferred_locations = [lit ''Remote'', lit ''India''],
      job_titles = [lit ''Software Engineer'', lit ''AI Engineer'']\<rparr>"


definition example_ranked :: "job list" where
  "example_ranked =
     [scored (posting ''Backend Python Developer'' ''Initech'' ''using Docker and Kubernetes'')
        [''python'', ''docker''] 30,
      scored (posting ''AI Engineer'' ''Globex'' ''llm work'') [''ai''] 20,
      scored (posting ''Clerk'' ''Acme'' ''filing'') [] 0,
      scored (posting ''Driver'' ''Acme'' ''deliveries'') [] 0]"

text \<open>
  A language model that answers by call site, with a grader reply that holds no braces, and a
  store with a resume index only.
\<close>

definition example_llm :: llm where
  "example_llm log c =
     (case site c of
        Router \<Rightarrow> Inr (lit '' Use the Project and Resume bases '')
      | Generator \<Rightarrow> Inr (lit ''You studied at the institute.'')
      | Grader \<Rightarrow> Inr (lit ''The answer looks incomplete'')
      | Corrector \<Rightarrow> Inr (lit ''You studied computer science at the institute.''))"

definition example_store :: vector_store where
  "example_store = \<lparr>resume_index = Some (\<lambda>q. [lit ''B.Tech, 2024'']), project_index = None\<rparr>"

text \<open>
  Environments with and without credentials, a network that is down, and one whose three
  backends answer with a job list, a job list behind a metadata entry, and a body that is not
  an object.
\<close>

definition no_keys :: env where
  "no_keys = \<lparr>RAPIDAPI_KEY = None, ADZUNA_APP_ID = Some (lit ''id''), ADZUNA_API_KEY = Some []\<rparr>"

definition all_keys :: env where
  "all_keys = \<lparr>RAPIDAPI_KEY = Some (lit ''r''), ADZUNA_APP_ID = Some (lit ''id''),
                ADZUNA_API_KEY = Some (lit ''k'')\<rparr>"

definition down_network :: network where
  "down_network log r = Inl RequestException"

definition example_network :: network where
  "example_network log r =
     (if url r = lit ''https://jsearch.p.rapidapi.com/search''
      then Inr (PDict [(lit ''data'', PList [PDict [(lit ''job_title'', PStr (lit ''AI Engineer'')),
                                                   (lit ''employer_name'', PStr (lit ''Globex'')),
                                                   (lit ''job_description'', PStr (lit ''llm work''))]])])
      else if url r = lit ''https://remoteok.com/api''
      then Inr (PList [PDict [(lit ''legal'', PStr (lit ''terms''))],
                       PDict [(lit ''position'', PStr (lit ''Senior AI Engineer'')),
                              (lit ''company'', PStr (lit ''Initech'')),
                              (lit ''description'', PStr (lit ''python''))],
                       PDict [(lit ''position'', PStr (lit ''Clerk'')),
                              (lit ''company'', PStr (lit ''Acme''))]])
      else Inr (PStr (lit ''<html>'')))"

text \<open>
  Candidate data: none at all, one backend project, and a project whose title is null.
\<close>

definition empty_data :: pyval where
  "empty_data = PDict []"


definition null_title_data :: pyval where
  "null_title_data = PDict [(lit ''projects'', PList [PDict [(lit ''title'', PNone)]])]"

definition globex_job :: job where
  "globex_job = (posting ''AI Engineer'' ''Globex'' ''llm work'')
                  \<lparr>location := Some (PStr []), source := Some (PStr (lit ''JSearch''))\<rparr>"

definition initech_job :: job where
  "initech_job = posting ''Senior AI Engineer'' ''Initech'' ''python''"

definition fresh_world :: world where
  "fresh_world = \<lparr>sent = [], cache = Absent\<rparr>"


section \<open>Properties\<close>

subsection \<open>Strings\<close>

lemma py_in_sublist: "py_in s t = sublist s t"
  by (induction t) (auto simp: sublist_Cons_right)

lemma example_lists_sets: "lists_sets example_python"
  by (simp add: lists_sets_def example_python_def)

lemma example_lowers_ascii: "lowers_ascii example_python"
  by (simp add: lowers_ascii_def example_python_def)

lemma is_space_ascii_lower:
  "is_space (if 0x41 \<le> c \<and> c \<le> 0x5A then c + 0x20 else c) = is_space c"
  by (auto simp: is_space_def)

lemma ascii_lower_strip: "ascii_lower (strip s) = strip (ascii_lower s)"
proof -
  have c: "is_space \<circ> (\<lambda>c. if 0x41 \<le> c \<and> c \<le> 0x5A then c + 0x20 else c) = is_space"
    by (rule ext) (simp only: comp_def is_space_ascii_lower)
  show ?thesis
    by (simp add: ascii_lower_def strip_def rev_map dropWhile_map c)
qed

lemma example_lower_keeps_margins: "lower_keeps_margins example_python"
  by (simp add: lower_keeps_margins_def example_python_def ascii_lower_strip)

subsection \<open>Ranking\<close>

lemma score_job_returns_iff: "(\<exists>j'. score_job py p j = Inr j') \<longleftrightarrow> scorable j"
  by (auto simp: score_job_def job_text_def scorable_def is_str_def get_val_def Let_def
           split: option.splits pyval.splits sum.splits)















subsection \<open>Scoring\<close>

lemma fuzzy_words_eq:
  "fuzzy_words key ws text st = (if any_in ws text then (fst st @ [key], snd st + 5) else st)"
  by (induction ws) (auto simp: any_in_def)

lemma fuzzy_loop_eq:
  "fuzzy_loop syn text st =
     (fst st @ map fst [kw \<leftarrow> syn. any_in (snd kw) text],
      snd st + 5 * int (length [kw \<leftarrow> syn. any_in (snd kw) text]))"
  by (induction syn arbitrary: st) (auto simp: fuzzy_words_eq)

lemma title_loop_eq:
  "title_loop py ts jt score =
     score + 15 * int (length [t \<leftarrow> ts. py_in (lower py t) (lower py jt)])"
  by (induction ts arbitrary: score) auto

lemma score_job_unfold:
  assumes "score_job py p j = Inr j'" and "job_text py j = Inr text"
  shows "j' = j\<lparr>matched_skills :=
                   Some (list_of_set py ([s \<leftarrow> list_of_set py (skills p). py_in s text]
                                         @ map fst [kw \<leftarrow> synonyms. any_in (snd kw) text])),
                 relevance_score :=
                   Some (10 * int (length [s \<leftarrow> list_of_set py (skills p). py_in s text])
                       + 5 * int (length [kw \<leftarrow> synonyms. any_in (snd kw) text])
                       + 15 * int (length [t \<leftarrow> job_titles p.
                                             py_in (lower py t) (lower py (title_str j))]))\<rparr>"
  using assms
  by (auto simp: score_job_def Let_def fuzzy_loop_eq title_loop_eq
           split: sum.splits option.splits pyval.splits)

lemma score_job_matched:
  assumes "score_job py p j = Inr j'" and "job_text py j = Inr text" and "lists_sets py"
  shows "\<exists>ms. matched_skills j' = Some ms
           \<and> set ms = {s \<in> set (skills p). py_in s text}
                      \<union> fst ` {kw \<in> set synonyms. any_in (snd kw) text}"
  unfolding score_job_unfold [OF assms(1,2)] using assms(3) by (simp add: lists_sets_def)

text \<open>
  Claim C3. The score of a job is 10 for each profile skill, as the set of skills lists them,
  found in the job text, plus 5 for each concept of the synonym table with at least one word
  found in the text, however many of its words occur, plus 15 for each profile title found in
  the job title; every such concept key is among the matched skills. For a profile whose
  skills are python and docker and the text "Backend Python Developer using Docker and
  Kubernetes" the score is at least 15 and both skills are matched.
\<close>

theorem fuzzy_signal:
  "(score_job py p j = Inr j' \<and> job_text py j = Inr text \<longrightarrow>
      relevance_score j' =
        Some (10 * int (length [s \<leftarrow> list_of_set py (skills p). sublist s text])
            + 5 * int (length [kw \<leftarrow> synonyms. \<exists>w \<in> set (snd kw). sublist w text])
            + 15 * int (length [t \<leftarrow> job_titles p.
                                  sublist (lower py t) (lower py (title_str j))]))
    \<and> (lists_sets py \<longrightarrow>
         (\<forall>kw \<in> set synonyms. (\<exists>w \<in> set (snd kw). sublist w text) \<longrightarrow>
            (\<exists>ms. matched_skills j' = Some ms \<and> fst kw \<in> set ms))))
   \<and> (title j = Some (PStr t) \<and> description j = Some (PStr d) \<longrightarrow>
        job_text py j = Inr (lower py (t @ lit '' '' @ d)))
   \<and> (lists_sets py \<and> lowers_ascii py
      \<and> set (skills p) = {lit ''python'', lit ''docker''}
      \<and> title j = Some (PStr t) \<and> description j = Some (PStr d)
      \<and> t @ lit '' '' @ d = lit ''Backend Python Developer using Docker and Kubernetes'' \<longrightarrow>
        (\<exists>j' n ms. score_job py p j = Inr j' \<and> relevance_score j' = Some n \<and> 15 \<le> n
           \<and> matched_skills j' = Some ms \<and> {lit ''python'', lit ''docker''} \<subseteq> set ms))"
proof (intro conjI impI)
  assume a: "score_job py p j = Inr j' \<and> job_text py j = Inr text"
  then have u: "score_job py p j = Inr j'" and t: "job_text py j = Inr text"
    by simp_all
  have any: "\<And>ws. any_in ws text = (\<exists>w \<in> set ws. sublist w text)"
    by (simp add: any_in_def py_in_sublist)
  show "relevance_score j' =
        Some (10 * int (length [s \<leftarrow> list_of_set py (skills p). sublist s text])
            + 5 * int (length [kw \<leftarrow> synonyms. \<exists>w \<in> set (snd kw). sublist w text])
            + 15 * int (length [t \<leftarrow> job_titles p.
                                  sublist (lower py t) (lower py (title_str j))]))"
    unfolding score_job_unfold [OF u t] by (simp add: py_in_sublist any)
  assume l: "lists_sets py"
  show "\<forall>kw \<in> set synonyms. (\<exists>w \<in> set (snd kw). sublist w text) \<longrightarrow>
          (\<exists>ms. matched_skills j' = Some ms \<and> fst kw \<in> set ms)"
    using score_job_matched [OF u t l] by (auto simp: any)
next
  assume "title j = Some (PStr t) \<and> description j = Some (PStr d)"
  then show "job_text py j = Inr (lower py (t @ lit '' '' @ d))"
    by (simp add: job_text_def get_val_def)
next
  assume a: "lists_sets py \<and> lowers_ascii py
      \<and> set (skills p) = {lit ''python'', lit ''docker''}
      \<and> title j = Some (PStr t) \<and> description j = Some (PStr d)
      \<and> t @ lit '' '' @ d = lit ''Backend Python Developer using Docker and Kubernetes''"
  then have l: "lists_sets py" and la: "lowers_ascii py"
    by simp_all
  define low where "low = lit ''backend python developer using docker and kubernetes''"
  have "\<forall>c \<in> set (lit ''Backend Python Developer using Docker and Kubernetes''). c < 0x80"
    by code_simp
  then have "lower py (lit ''Backend Python Developer using Docker and Kubernetes'')
             = ascii_lower (lit ''Backend Python Developer using Docker and Kubernetes'')"
    using la unfolding lowers_ascii_def by blast
  also have "\<dots> = low"
    unfolding low_def by code_simp
  finally have "lower py (lit ''Backend Python Developer using Docker and Kubernetes'') = low" .
  with a have t: "job_text py j = Inr low"
    by (simp add: job_text_def get_val_def)
  from a have "scorable j"
    by (simp add: scorable_def is_str_def)
  then obtain j' where u: "score_job py p j = Inr j'"
    using score_job_returns_iff by blast
  have py: "py_in (lit ''python'') low" and dk: "py_in (lit ''docker'') low"
    unfolding low_def by code_simp+
  have fz: "length [kw \<leftarrow> synonyms. any_in (snd kw) low] = 2"
    unfolding low_def by code_simp
  have "set (list_of_set py (skills p)) = {lit ''python'', lit ''docker''}"
    using a l by (simp add: lists_sets_def)
  then have "[s \<leftarrow> list_of_set py (skills p). py_in s low] \<noteq> []"
    using py by (auto simp: filter_empty_conv)
  then have ex: "1 \<le> length [s \<leftarrow> list_of_set py (skills p). py_in s low]"
    by (simp add: Suc_le_eq)
  obtain ms where ms: "matched_skills j' = Some ms"
    "set ms = {s \<in> set (skills p). py_in s low} \<union> fst ` {kw \<in> set synonyms. any_in (snd kw) low}"
    using score_job_matched [OF u t l] by blast
  have sub: "{lit ''python'', lit ''docker''} \<subseteq> set ms"
    using a py dk by (simp add: ms)
  define n where "n = 10 * int (length [s \<leftarrow> list_of_set py (skills p). py_in s low])
                       + 5 * int (length [kw \<leftarrow> synonyms. any_in (snd kw) low])
                       + 15 * int (length [t \<leftarrow> job_titles p.
                                             py_in (lower py t) (lower py (title_str j))])"
  have rs: "relevance_score j' = Some n"
    unfolding n_def score_job_unfold [OF u t] by simp
  have "15 \<le> n"
    unfolding n_def using ex fz by simp
  with u rs ms(1) sub
  show "\<exists>j' n ms. score_job py p j = Inr j' \<and> relevance_score j' = Some n \<and> 15 \<le> n
           \<and> matched_skills j' = Some ms \<and> {lit ''python'', lit ''docker''} \<subseteq> set ms"
    by blast
qed

theorem fuzzy_signal_witness:
  "score_job example_python example_profile
     (posting ''Backend Python Developer'' ''Initech'' ''using Docker and Kubernetes'')
     = Inr (scored (posting ''Backend Python Developer'' ''Initech'' ''using Docker and Kubernetes'')
              [''python'', ''docker''] 30)
   \<and> (\<exists>j' n ms. score_job example_python example_profile
                    (posting ''Backend Python Developer'' ''Initech'' ''using Docker and Kubernetes'')
                    = Inr j'
          \<and> relevance_score j' = Some n \<and> 15 \<le> n
          \<and> matched_skills j' = Some ms \<and> {lit ''python'', lit ''docker''} \<subseteq> set ms)"
proof -
  let ?j = "posting ''Backend Python Developer'' ''Initech'' ''using Docker and Kubernetes''"
  have h: "score_job example_python example_profile ?j
             = Inr (scored ?j [''python'', ''docker''] 30)"
    by code_simp
  have c: "lit ''Backend Python Developer'' @ lit '' '' @ lit ''using Docker and Kubernetes''
          = lit ''Backend Python Developer using Docker and Kubernetes''"
    by (simp add: lit_def)
  have a: "lists_sets example_python \<and> lowers_ascii example_python
      \<and> set (skills example_profile) = {lit ''python'', lit ''docker''}
      \<and> title ?j = Some (PStr (lit ''Backend Python Developer''))
      \<and> description ?j = Some (PStr (lit ''using Docker and Kubernetes''))
      \<and> lit ''Backend Python Developer'' @ lit '' '' @ lit ''using Docker and Kubernetes''
          = lit ''Backend Python Developer using Docker and Kubernetes''"
    using example_lists_sets example_lowers_ascii c
    by (simp add: example_profile_def posting_def)
  have e: "\<exists>j' n ms. score_job example_python example_profile ?j = Inr j'
          \<and> relevance_score j' = Some n \<and> 15 \<le> n
          \<and> matched_skills j' = Some ms \<and> {lit ''python'', lit ''docker''} \<subseteq> set ms"
    by (rule fuzzy_signal [THEN conjunct2, THEN conjunct2, THEN mp, OF a])
  show ?thesis
    by (intro conjI h e)
qed

subsection \<open>Deduplication\<close>

lemma job_key_iff:
  "job_key py j = Inr k \<longleftrightarrow>
     (\<exists>t c. title j = Some (PStr t) \<and> company j = Some (PStr c) \<and> k = (lower py t, lower py c))"
  by (auto simp: job_key_def split: option.splits pyval.splits)

lemma has_key_iff: "has_key j \<longleftrightarrow> (\<exists>k. job_key py j = Inr k)"
  by (auto simp: has_key_def is_str_def job_key_def split: option.splits pyval.splits)

lemma dedupe_loop_keys_ok:
  "dedupe_loop py u js = Inr r \<Longrightarrow> \<forall>e \<in> set u. job_key py (snd e) = Inr (fst e) \<Longrightarrow>
   \<forall>e \<in> set r. job_key py (snd e) = Inr (fst e)"
  by (induction js arbitrary: u) (auto split: sum.splits if_splits)

lemma dedupe_loop_distinct:
  "dedupe_loop py u js = Inr r \<Longrightarrow> distinct (map fst u) \<Longrightarrow> distinct (map fst r)"
proof (induction js arbitrary: u)
  case Nil
  then show ?case by simp
next
  case (Cons j js)
  then show ?case
    by (auto split: sum.splits if_splits simp: map_of_eq_None_iff)
qed

lemma dedupe_loop_covers:
  "dedupe_loop py u js = Inr r \<Longrightarrow>
   fst ` set u \<subseteq> fst ` set r \<and> (\<forall>j \<in> set js. \<exists>k \<in> fst ` set r. job_key py j = Inr k)"
proof (induction js arbitrary: u)
  case Nil
  then show ?case by simp
next
  case (Cons j js)
  obtain k where k: "job_key py j = Inr k"
    using Cons.prems by (auto split: sum.splits)
  show ?case
  proof (cases "map_of u k = None")
    case True
    with k Cons.prems have "dedupe_loop py (u @ [(k, j)]) js = Inr r" by simp
    from Cons.IH [OF this] k show ?thesis by auto
  next
    case False
    with k Cons.prems have "dedupe_loop py u js = Inr r" by simp
    from Cons.IH [OF this] k False show ?thesis
      by (auto simp: map_of_eq_None_iff)
  qed
qed

lemma dedupe_loop_first:
  "dedupe_loop py u js = Inr r \<Longrightarrow> (k, j') \<in> set r \<Longrightarrow>
   (k, j') \<in> set u \<or> (k \<notin> fst ` set u \<and> find (\<lambda>x. job_key py x = Inr k) js = Some j')"
proof (induction js arbitrary: u)
  case Nil
  then show ?case by simp
next
  case (Cons j js)
  obtain k0 where k0: "job_key py j = Inr k0"
    using Cons.prems by (auto split: sum.splits)
  show ?case
  proof (cases "map_of u k0 = None")
    case True
    with k0 Cons.prems have "dedupe_loop py (u @ [(k0, j)]) js = Inr r" by simp
    from Cons.IH [OF this Cons.prems(2)] k0 True show ?thesis
      by (auto simp: map_of_eq_None_iff)
  next
    case False
    with k0 Cons.prems have "dedupe_loop py u js = Inr r" by simp
    from Cons.IH [OF this Cons.prems(2)] k0 False show ?thesis
      by (auto simp: map_of_eq_None_iff)
  qed
qed

lemma dedupe_loop_returns:
  "list_all has_key js \<Longrightarrow> \<exists>r. dedupe_loop py u js = Inr r"
proof (induction js arbitrary: u)
  case Nil
  show ?case by simp
next
  case (Cons j js)
  then obtain k where "job_key py j = Inr k"
    using has_key_iff [of j py] by auto
  with Cons show ?case by simp
qed

lemma dedupe_loop_needs_keys:
  "dedupe_loop py u js = Inr r \<Longrightarrow> list_all has_key js"
proof (induction js arbitrary: u)
  case Nil
  show ?case by simp
next
  case (Cons j js)
  then show ?case
    using has_key_iff [of j py] by (auto split: sum.splits if_splits)
qed

lemma dedupe_unfold:
  "dedupe py jobs = Inr out \<Longrightarrow> \<exists>r. dedupe_loop py [] jobs = Inr r \<and> out = map snd r"
  by (auto simp: dedupe_def split: sum.splits)

text \<open>
  Claim C2. The key of a job is the pair of its lowercased title and lowercased company,
  and only a job whose title and company are strings has one. Whenever the deduplication
  loop returns, every input job has a key, no two jobs it keeps share a key, every input job
  has its key among the jobs kept, and each job kept is the first job of the input with its
  key. The loop returns whenever every job has a key. Of two postings with the same lowercased
  title and the same lowercased company only the first is kept, whatever else they hold; two
  postings that differ in either are both kept.
\<close>

theorem dedupe_first_wins:
  "(job_key py j = Inr k \<longleftrightarrow>
      (\<exists>t c. title j = Some (PStr t) \<and> company j = Some (PStr c)
             \<and> k = (lower py t, lower py c)))
   \<and> (dedupe py jobs = Inr out \<longrightarrow>
        list_all has_key jobs
      \<and> distinct (map (job_key py) out)
      \<and> (\<forall>j \<in> set jobs. \<exists>j' \<in> set out. job_key py j' = job_key py j)
      \<and> (\<forall>j' \<in> set out. find (\<lambda>x. job_key py x = job_key py j') jobs = Some j'))
   \<and> (list_all has_key jobs \<longrightarrow> (\<exists>r. dedupe py jobs = Inr r))
   \<and> (title a = Some (PStr ta) \<and> company a = Some (PStr ca)
      \<and> title b = Some (PStr tb) \<and> company b = Some (PStr cb) \<longrightarrow>
        (lower py tb = lower py ta \<and> lower py cb = lower py ca \<longrightarrow> dedupe py [a, b] = Inr [a])
      \<and> (lower py tb \<noteq> lower py ta \<or> lower py cb \<noteq> lower py ca \<longrightarrow>
           dedupe py [a, b] = Inr [a, b]))"
proof (intro conjI impI)
  show "job_key py j = Inr k \<longleftrightarrow>
      (\<exists>t c. title j = Some (PStr t) \<and> company j = Some (PStr c)
             \<and> k = (lower py t, lower py c))"
    by (rule job_key_iff)
next
  assume d: "dedupe py jobs = Inr out"
  then obtain r where r: "dedupe_loop py [] jobs = Inr r" and o: "out = map snd r"
    using dedupe_unfold by blast
  show "list_all has_key jobs"
    using r by (rule dedupe_loop_needs_keys)
  have ok: "\<forall>e \<in> set r. job_key py (snd e) = Inr (fst e)"
    using dedupe_loop_keys_ok [OF r] by simp
  then have keys: "map (job_key py) out = map (\<lambda>e. Inr (fst e)) r"
    by (simp add: o)
  have "distinct (map fst r)"
    using dedupe_loop_distinct [OF r] by simp
  then have "distinct (map (\<lambda>e. (Inr (fst e) :: exn + str \<times> str)) r)"
    by (simp add: distinct_map inj_on_def)
  then show "distinct (map (job_key py) out)"
    by (simp add: keys)
  show "\<forall>j \<in> set jobs. \<exists>j' \<in> set out. job_key py j' = job_key py j"
  proof
    fix j assume "j \<in> set jobs"
    then obtain e where "e \<in> set r" "job_key py j = Inr (fst e)"
      using dedupe_loop_covers [OF r] by auto
    with ok have "snd e \<in> set out" "job_key py (snd e) = job_key py j"
      by (auto simp: o)
    then show "\<exists>j' \<in> set out. job_key py j' = job_key py j" by blast
  qed
  show "\<forall>j' \<in> set out. find (\<lambda>x. job_key py x = job_key py j') jobs = Some j'"
  proof
    fix j' assume "j' \<in> set out"
    then obtain k where e: "(k, j') \<in> set r"
      by (auto simp: o)
    with ok have "job_key py j' = Inr k" by fastforce
    with dedupe_loop_first [OF r e]
    show "find (\<lambda>x. job_key py x = job_key py j') jobs = Some j'"
      by simp
  qed
next
  assume "list_all has_key jobs"
  then show "\<exists>r. dedupe py jobs = Inr r"
    using dedupe_loop_returns [of jobs py "[]"] by (auto simp: dedupe_def)
next
  assume "title a = Some (PStr ta) \<and> company a = Some (PStr ca)
      \<and> title b = Some (PStr tb) \<and> company b = Some (PStr cb)"
    and "lower py tb = lower py ta \<and> lower py cb = lower py ca"
  then show "dedupe py [a, b] = Inr [a]"
    by (simp add: dedupe_def job_key_def)
next
  assume "title a = Some (PStr ta) \<and> company a = Some (PStr ca)
      \<and> title b = Some (PStr tb) \<and> company b = Some (PStr cb)"
    and "lower py tb \<noteq> lower py ta \<or> lower py cb \<noteq> lower py ca"
  then show "dedupe py [a, b] = Inr [a, b]"
    by (auto simp: dedupe_def job_key_def)
qed

theorem dedupe_first_wins_witness:
  "dedupe example_python
     [posting ''Data Engineer'' ''Acme'' ''first text'',
      posting ''DATA engineer'' ''ACME'' ''second text'']
     = Inr [posting ''Data Engineer'' ''Acme'' ''first text'']
   \<and> dedupe example_python
       [posting ''Data Engineer'' ''Acme'' ''first text'',
        posting ''DATA engineer'' ''Initech'' ''second text'']
     = Inr [posting ''Data Engineer'' ''Acme'' ''first text'',
            posting ''DATA engineer'' ''Initech'' ''second text'']
   \<and> find (\<lambda>x. job_key example_python x
                 = job_key example_python (posting ''Data Engineer'' ''Acme'' ''first text''))
        [posting ''Data Engineer'' ''Acme'' ''first text'',
         posting ''Clerk'' ''Acme'' ''filing'',
         posting ''DATA engineer'' ''ACME'' ''second text'']
       = Some (posting ''Data Engineer'' ''Acme'' ''first text'')"
proof -
  let ?a = "posting ''Data Engineer'' ''Acme'' ''first text''"
  let ?b = "posting ''DATA engineer'' ''ACME'' ''second text''"
  let ?b' = "posting ''DATA engineer'' ''Initech'' ''second text''"
  let ?c = "posting ''Clerk'' ''Acme'' ''filing''"
  note s = dedupe_first_wins [where py = example_python, THEN conjunct2, THEN conjunct2,
                              THEN conjunct2]
  have f: "title ?a = Some (PStr (lit ''Data Engineer'')) \<and> company ?a = Some (PStr (lit ''Acme''))
      \<and> title ?b = Some (PStr (lit ''DATA engineer'')) \<and> company ?b = Some (PStr (lit ''ACME''))"
    by (simp add: posting_def)
  have f': "title ?a = Some (PStr (lit ''Data Engineer'')) \<and> company ?a = Some (PStr (lit ''Acme''))
      \<and> title ?b' = Some (PStr (lit ''DATA engineer''))
      \<and> company ?b' = Some (PStr (lit ''Initech''))"
    by (simp add: posting_def)
  have e: "lower example_python (lit ''DATA engineer'') = lower example_python (lit ''Data Engineer'')
      \<and> lower example_python (lit ''ACME'') = lower example_python (lit ''Acme'')"
    by code_simp
  have n: "lower example_python (lit ''DATA engineer'') \<noteq> lower example_python (lit ''Data Engineer'')
      \<or> lower example_python (lit ''Initech'') \<noteq> lower example_python (lit ''Acme'')"
    by code_simp
  have 1: "dedupe example_python [?a, ?b] = Inr [?a]"
    by (rule s [THEN mp, OF f, THEN conjunct1, THEN mp, OF e])
  have 2: "dedupe example_python [?a, ?b'] = Inr [?a, ?b']"
    by (rule s [THEN mp, OF f', THEN conjunct2, THEN mp, OF n])
  have h: "dedupe example_python [?a, ?c, ?b] = Inr [?a, ?c]"
    by code_simp
  have m: "?a \<in> set [?a, ?c]" by simp
  have 3: "find (\<lambda>x. job_key example_python x = job_key example_python ?a) [?a, ?c, ?b] = Some ?a"
    using dedupe_first_wins [where py = example_python and jobs = "[?a, ?c, ?b]"
                               and out = "[?a, ?c]",
                             THEN conjunct2, THEN conjunct1, THEN mp, OF h] m
    by (elim conjE) (rule bspec)
  show ?thesis
    by (intro conjI 1 2 3)
qed

subsection \<open>Routing\<close>

lemma sublist_dropWhile_space:
  assumes "s \<noteq> []" and "\<forall>c \<in> set s. \<not> is_space c"
  shows "sublist s (dropWhile is_space t) = sublist s t"
proof (induction t)
  case Nil
  show ?case by simp
next
  case (Cons c cs)
  show ?case
  proof (cases "is_space c")
    case True
    with assms have "\<not> prefix s (c # cs)"
      by (cases s) auto
    with True Cons.IH show ?thesis
      by (simp add: sublist_Cons_right)
  next
    case False
    then show ?thesis by simp
  qed
qed

lemma sublist_strip:
  assumes "s \<noteq> []" and "\<forall>c \<in> set s. \<not> is_space c"
  shows "sublist s (strip t) = sublist s t"
proof -
  have "sublist s (strip t) = sublist (rev s) (dropWhile is_space (rev (dropWhile is_space t)))"
    by (simp add: strip_def sublist_rev_right)
  also have "\<dots> = sublist (rev s) (rev (dropWhile is_space t))"
    using assms by (intro sublist_dropWhile_space) auto
  also have "\<dots> = sublist s (dropWhile is_space t)"
    by simp
  also have "\<dots> = sublist s t"
    using assms by (rule sublist_dropWhile_space)
  finally show ?thesis .
qed

lemma route_decision_eq:
  "route_decision py r =
     (if sublist (lit ''project'') (lower py (strip r))
         \<and> sublist (lit ''resume'') (lower py (strip r)) then lit ''both''
      else if sublist (lit ''project'') (lower py (strip r)) then lit ''project''
      else lit ''resume'')"
  unfolding route_decision_def Let_def py_in_sublist ..

lemma route_decision_unstripped:
  assumes "lower_keeps_margins py"
  shows "route_decision py r =
     (if sublist (lit ''project'') (lower py r) \<and> sublist (lit ''resume'') (lower py r)
      then lit ''both''
      else if sublist (lit ''project'') (lower py r) then lit ''project''
      else lit ''resume'')"
proof -
  have m: "lower py (strip r) = strip (lower py r)"
    using assms by (simp add: lower_keeps_margins_def)
  have p: "sublist (lit ''project'') (strip (lower py r)) = sublist (lit ''project'') (lower py r)"
    by (rule sublist_strip) (simp_all add: is_space_def lit_def)
  have q: "sublist (lit ''resume'') (strip (lower py r)) = sublist (lit ''resume'') (lower py r)"
    by (rule sublist_strip) (simp_all add: is_space_def lit_def)
  show ?thesis
    unfolding route_decision_eq m p q ..
qed

lemma route_decision_range:
  "route_decision py r \<in> {lit ''resume'', lit ''project'', lit ''both''}"
  unfolding route_decision_eq by (simp del: insert_iff) auto

text \<open>
  Claim C4. The routing decision is taken by substring checks on the lowercased reply: "both"
  when "project" and "resume" both occur in it, else "project" when "project" occurs, else
  "resume"; so it is always one of the three. The code strips the reply before lowering it,
  which does not change what the checks find.
\<close>

theorem route_decision_cases:
  "route_decision py r =
     (if sublist (lit ''project'') (lower py (strip r))
         \<and> sublist (lit ''resume'') (lower py (strip r)) then lit ''both''
      else if sublist (lit ''project'') (lower py (strip r)) then lit ''project''
      else lit ''resume'')
   \<and> (lower_keeps_margins py \<longrightarrow>
        route_decision py r =
          (if sublist (lit ''project'') (lower py r) \<and> sublist (lit ''resume'') (lower py r)
           then lit ''both''
           else if sublist (lit ''project'') (lower py r) then lit ''project''
           else lit ''resume''))
   \<and> route_decision py r \<in> {lit ''resume'', lit ''project'', lit ''both''}
   \<and> (route_query py api_keys m q log = (Inr d, log') \<longrightarrow>
        d \<in> {lit ''resume'', lit ''project'', lit ''both''})"
proof (intro conjI impI)
  show "route_decision py r =
     (if sublist (lit ''project'') (lower py (strip r))
         \<and> sublist (lit ''resume'') (lower py (strip r)) then lit ''both''
      else if sublist (lit ''project'') (lower py (strip r)) then lit ''project''
      else lit ''resume'')"
    by (rule route_decision_eq)
  show "route_decision py r \<in> {lit ''resume'', lit ''project'', lit ''both''}"
    by (rule route_decision_range)
next
  assume "lower_keeps_margins py"
  then show "route_decision py r =
          (if sublist (lit ''project'') (lower py r) \<and> sublist (lit ''resume'') (lower py r)
           then lit ''both''
           else if sublist (lit ''project'') (lower py r) then lit ''project''
           else lit ''resume'')"
    by (rule route_decision_unstripped)
next
  assume "route_query py api_keys m q log = (Inr d, log')"
  then obtain c where "d = route_decision py c"
    by (auto simp: route_query_def split: prod.splits sum.splits)
  then show "d \<in> {lit ''resume'', lit ''project'', lit ''both''}"
    using route_decision_range by simp
qed

lemma example_keys: "get_random_llm [Some (lit ''key''), None] = Inr ()"
  by (simp add: get_random_llm_def lit_def)

lemma example_route:
  "route_query example_python [Some (lit ''key''), None] example_llm q log
     = (Inr (lit ''both''), log @ [route_call q])"
proof -
  have "route_decision example_python (lit '' Use the Project and Resume bases '') = lit ''both''"
    by code_simp
  then show ?thesis
    by (simp add: route_query_def ask_def example_keys invoke_def example_llm_def route_call_def)
qed

theorem route_decision_cases_witness:
  "route_query example_python [Some (lit ''key''), None] example_llm (lit ''Where did I study?'') []
     = (Inr (lit ''both''), [route_call (lit ''Where did I study?'')])
   \<and> lit ''both'' \<in> {lit ''resume'', lit ''project'', lit ''both''}
   \<and> route_decision example_python (lit '' Use the Project and Resume bases '')
       = (if sublist (lit ''project'')
               (lower example_python (lit '' Use the Project and Resume bases ''))
             \<and> sublist (lit ''resume'')
                 (lower example_python (lit '' Use the Project and Resume bases ''))
          then lit ''both''
          else if sublist (lit ''project'')
                    (lower example_python (lit '' Use the Project and Resume bases ''))
          then lit ''project''
          else lit ''resume'')"
proof -
  have h: "route_query example_python [Some (lit ''key''), None] example_llm
             (lit ''Where did I study?'') []
     = (Inr (lit ''both''), [route_call (lit ''Where did I study?'')])"
    using example_route [of "lit ''Where did I study?''" "[]"] by simp
  have 1: "lit ''both'' \<in> {lit ''resume'', lit ''project'', lit ''both''}"
    by (rule route_decision_cases
          [THEN conjunct2, THEN conjunct2, THEN conjunct2, THEN mp, OF h])
  have 2: "route_decision example_python (lit '' Use the Project and Resume bases '')
       = (if sublist (lit ''project'')
               (lower example_python (lit '' Use the Project and Resume bases ''))
             \<and> sublist (lit ''resume'')
                 (lower example_python (lit '' Use the Project and Resume bases ''))
          then lit ''both''
          else if sublist (lit ''project'')
                    (lower example_python (lit '' Use the Project and Resume bases ''))
          then lit ''project''
          else lit ''resume'')"
    by (rule route_decision_cases
          [THEN conjunct2, THEN conjunct1, THEN mp, OF example_lower_keeps_margins])
  show ?thesis
    by (intro conjI h 1 2)
qed

subsection \<open>Grading and the single correction\<close>

lemma dropWhile_keeps_tail:
  "\<not> P x \<Longrightarrow> set (x # ys) \<subseteq> set (dropWhile P (a @ x # ys))"
  by (induction a) auto

lemma lit_braces: "lit ''{'' = [0x7B]" "lit ''}'' = [0x7D]"
  by (simp_all add: lit_def)

lemma re_search_braces_None_iff:
  "re_search_braces t = None \<longleftrightarrow> \<not> (\<exists>a b c. t = a @ lit ''{'' @ b @ lit ''}'' @ c)"
proof
  assume n: "re_search_braces t = None"
  show "\<not> (\<exists>a b c. t = a @ lit ''{'' @ b @ lit ''}'' @ c)"
  proof
    assume "\<exists>a b c. t = a @ lit ''{'' @ b @ lit ''}'' @ c"
    then obtain a b c where t: "t = a @ 0x7B # (b @ 0x7D # c)"
      by (auto simp: lit_braces)
    have "set (0x7B # (b @ 0x7D # c)) \<subseteq> set (dropWhile (\<lambda>x. x \<noteq> 0x7B) t)"
      unfolding t by (rule dropWhile_keeps_tail) simp
    then have "0x7D \<in> set (dropWhile (\<lambda>x. x \<noteq> 0x7B) t)"
      by auto
    with n show False
      by (simp add: re_search_braces_def Let_def)
  qed
next
  assume n: "\<not> (\<exists>a b c. t = a @ lit ''{'' @ b @ lit ''}'' @ c)"
  show "re_search_braces t = None"
  proof (rule ccontr)
    assume "re_search_braces t \<noteq> None"
    then have m: "0x7D \<in> set (dropWhile (\<lambda>x. x \<noteq> 0x7B) t)"
      by (auto simp: re_search_braces_def Let_def split: if_splits)
    define rest where "rest = dropWhile (\<lambda>x. x \<noteq> (0x7B :: nat)) t"
    have t: "t = takeWhile (\<lambda>x. x \<noteq> 0x7B) t @ rest"
      by (simp add: rest_def)
    from m have "rest \<noteq> []"
      unfolding rest_def by (auto simp del: dropWhile_eq_Nil_conv)
    then have "hd rest = 0x7B"
      unfolding rest_def using hd_dropWhile [of "\<lambda>x. x \<noteq> 0x7B" t] by simp
    with \<open>rest \<noteq> []\<close> obtain tl0 where r: "rest = 0x7B # tl0"
      by (cases rest) auto
    with m have "0x7D \<in> set tl0"
      by (simp add: rest_def)
    then obtain b c where "tl0 = b @ 0x7D # c"
      by (auto simp: in_set_conv_decomp)
    with r t have "t = takeWhile (\<lambda>x. x \<noteq> 0x7B) t @ lit ''{'' @ b @ lit ''}'' @ c"
      by (simp add: lit_braces)
    with n show False by blast
  qed
qed

lemma route_query_keys:
  "route_query py api_keys m q log = (Inr src, log1) \<Longrightarrow> get_random_llm api_keys = Inr ()"
  by (auto simp: route_query_def ask_def split: sum.splits prod.splits)

lemma route_query_log:
  "route_query py api_keys m q log = (Inr src, log1) \<Longrightarrow> log1 = log @ [route_call q]"
  by (auto simp: route_query_def ask_def invoke_def split: sum.splits prod.splits)

lemma retrieve_answer_log:
  "retrieve_answer api_keys vs m q src log1 = (Inr ans, log2) \<Longrightarrow>
   \<exists>calls. log2 = log1 @ calls \<and> (\<forall>c \<in> set calls. site c = Generator)"
  by (auto simp: retrieve_answer_def invoke_def Let_def answer_call_def
           split: sum.splits if_splits)

text \<open>
  Claim C5. A grader reply with no opening brace followed later by a closing brace is graded
  \<open>(False, "Could not parse grader response.")\<close>. When routing and retrieval have returned
  and the grader's reply is such a text, the pipeline makes exactly two more calls, the grading
  call and then one correction call whose prompt carries that feedback, and its result is the
  outcome of the correction call; the calls before them are router and generator calls, so
  nothing is graded a second time.
\<close>

theorem unparsed_grade_one_correction:
  "(\<not> (\<exists>a b c. reply = a @ lit ''{'' @ b @ lit ''}'' @ c) \<longrightarrow>
      grade_reply loads reply = (False, PStr (lit ''Could not parse grader response.'')))
   \<and> (route_query py api_keys m q log = (Inr src, log1)
      \<and> retrieve_answer api_keys vs m q src log1 = (Inr ans, log2)
      \<and> m log2 (grade_call q ans) = Inr reply
      \<and> \<not> (\<exists>a b c. reply = a @ lit ''{'' @ b @ lit ''}'' @ c) \<longrightarrow>
        agentic_rag_pipeline py api_keys vs m loads fmt q log
          = (m (log2 @ [grade_call q ans])
               (correction_call (lit ''Could not parse grader response.'')),
             log2 @ [grade_call q ans,
                     correction_call (lit ''Could not parse grader response.'')])
      \<and> prompt (correction_call (lit ''Could not parse grader response.''))
          = lit ''Your last answer was graded as insufficient because: Could not parse grader response.. Please correct it.''
      \<and> (\<exists>calls. log2 = log @ calls \<and> (\<forall>c \<in> set calls. site c = Router \<or> site c = Generator)))"
proof (intro conjI impI)
  assume "\<not> (\<exists>a b c. reply = a @ lit ''{'' @ b @ lit ''}'' @ c)"
  then have "re_search_braces reply = None"
    by (rule re_search_braces_None_iff [THEN iffD2])
  then show "grade_reply loads reply = (False, PStr (lit ''Could not parse grader response.''))"
    by (simp add: grade_reply_def)
next
  assume a: "route_query py api_keys m q log = (Inr src, log1)
      \<and> retrieve_answer api_keys vs m q src log1 = (Inr ans, log2)
      \<and> m log2 (grade_call q ans) = Inr reply
      \<and> \<not> (\<exists>a b c. reply = a @ lit ''{'' @ b @ lit ''}'' @ c)"
  have r: "route_query py api_keys m q log = (Inr src, log1)"
    using a by (rule conjunct1)
  have g: "retrieve_answer api_keys vs m q src log1 = (Inr ans, log2)"
    using a by (rule conjunct2 [THEN conjunct1])
  have v: "m log2 (grade_call q ans) = Inr reply"
    using a by (rule conjunct2 [THEN conjunct2, THEN conjunct1])
  have "\<not> (\<exists>a b c. reply = a @ lit ''{'' @ b @ lit ''}'' @ c)"
    using a by (rule conjunct2 [THEN conjunct2, THEN conjunct2])
  then have n: "re_search_braces reply = None"
    by (rule re_search_braces_None_iff [THEN iffD2])
  have k: "get_random_llm api_keys = Inr ()"
    using r by (rule route_query_keys)
  have gr: "grade_answer api_keys m loads q ans log2
              = (Inr (False, PStr (lit ''Could not parse grader response.'')),
                 log2 @ [grade_call q ans])"
    using k v n by (simp add: grade_answer_def ask_def invoke_def grade_reply_def)
  show "agentic_rag_pipeline py api_keys vs m loads fmt q log
          = (m (log2 @ [grade_call q ans])
               (correction_call (lit ''Could not parse grader response.'')),
             log2 @ [grade_call q ans,
                     correction_call (lit ''Could not parse grader response.'')])"
    using r g gr k by (simp add: agentic_rag_pipeline_def ask_def invoke_def py_str_def)
  show "prompt (correction_call (lit ''Could not parse grader response.''))
          = lit ''Your last answer was graded as insufficient because: Could not parse grader response.. Please correct it.''"
    by (simp add: correction_call_def correction_prompt_def lit_def)
  obtain calls where "log2 = log1 @ calls" "\<forall>c \<in> set calls. site c = Generator"
    using retrieve_answer_log [OF g] by blast
  moreover have "log1 = log @ [route_call q]"
    using r by (rule route_query_log)
  ultimately have "log2 = log @ (route_call q # calls)
      \<and> (\<forall>c \<in> set (route_call q # calls). site c = Router \<or> site c = Generator)"
    by (simp add: route_call_def)
  then show "\<exists>calls. log2 = log @ calls \<and> (\<forall>c \<in> set calls. site c = Router \<or> site c = Generator)"
    by blast
qed

lemma example_retrieve:
  "retrieve_answer [Some (lit ''key''), None] example_store example_llm q (lit ''both'') log
     = (Inr (lit ''You studied at the institute.''), log @ [answer_call (lit ''B.Tech, 2024'') q])"
proof -
  have "lit ''both'' \<noteq> lit ''resume''" and "lit ''both'' \<noteq> lit ''project''"
    by (simp_all add: lit_def)
  then have "selected_dbs example_store (lit ''both'') = [\<lambda>q. [lit ''B.Tech, 2024'']]"
    by (simp add: selected_dbs_def example_store_def)
  then show ?thesis
    by (simp add: retrieve_answer_def example_keys invoke_def example_llm_def answer_call_def)
qed

theorem unparsed_grade_one_correction_witness:
  "grade_reply (\<lambda>s. None) (lit ''The answer looks incomplete'')
     = (False, PStr (lit ''Could not parse grader response.''))
   \<and> agentic_rag_pipeline example_python [Some (lit ''key''), None] example_store example_llm
       (\<lambda>s. None) (\<lambda>v. []) (lit ''Where did I study?'') []
     = (Inr (lit ''You studied computer science at the institute.''),
        [route_call (lit ''Where did I study?''),
         answer_call (lit ''B.Tech, 2024'') (lit ''Where did I study?''),
         grade_call (lit ''Where did I study?'') (lit ''You studied at the institute.''),
         correction_call (lit ''Could not parse grader response.'')])"
proof -
  let ?q = "lit ''Where did I study?''"
  let ?ans = "lit ''You studied at the institute.''"
  let ?log2 = "[route_call ?q, answer_call (lit ''B.Tech, 2024'') ?q]"
  have r: "route_query example_python [Some (lit ''key''), None] example_llm ?q []
             = (Inr (lit ''both''), [route_call ?q])"
    using example_route [of ?q "[]"] by simp
  have g: "retrieve_answer [Some (lit ''key''), None] example_store example_llm ?q (lit ''both'')
             [route_call ?q]
             = (Inr ?ans, ?log2)"
    using example_retrieve [of ?q "[route_call ?q]"] by simp
  have v: "example_llm ?log2 (grade_call ?q ?ans) = Inr (lit ''The answer looks incomplete'')"
    by (simp add: example_llm_def grade_call_def)
  have "re_search_braces (lit ''The answer looks incomplete'') = None"
    by code_simp
  then have nb: "\<not> (\<exists>a b c. lit ''The answer looks incomplete'' = a @ lit ''{'' @ b @ lit ''}'' @ c)"
    by (rule re_search_braces_None_iff [THEN iffD1])
  have c: "example_llm (?log2 @ [grade_call ?q ?ans])
             (correction_call (lit ''Could not parse grader response.''))
           = Inr (lit ''You studied computer science at the institute.'')"
    by (simp add: example_llm_def correction_call_def)
  have 1: "grade_reply (\<lambda>s. None) (lit ''The answer looks incomplete'')
     = (False, PStr (lit ''Could not parse grader response.''))"
    by (rule unparsed_grade_one_correction [THEN conjunct1, THEN mp, OF nb])
  have 2: "agentic_rag_pipeline example_python [Some (lit ''key''), None] example_store example_llm
       (\<lambda>s. None) (\<lambda>v. []) ?q []
     = (example_llm (?log2 @ [grade_call ?q ?ans])
             (correction_call (lit ''Could not parse grader response.'')),
        ?log2 @ [grade_call ?q ?ans, correction_call (lit ''Could not parse grader response.'')])"
    by (rule unparsed_grade_one_correction
          [THEN conjunct2, THEN mp, OF conjI [OF r conjI [OF g conjI [OF v nb]]], THEN conjunct1])
  have 3: "agentic_rag_pipeline example_python [Some (lit ''key''), None] example_store example_llm
       (\<lambda>s. None) (\<lambda>v. []) ?q []
     = (Inr (lit ''You studied computer science at the institute.''),
        ?log2 @ [grade_call ?q ?ans, correction_call (lit ''Could not parse grader response.'')])"
    using 2 by (simp only: c)
  show ?thesis
    using 1 3 by simp
qed

subsection \<open>Adapters\<close>

lemma except_empty_returns: "\<exists>js. except_empty r = Inr js"
  by (cases r) (simp_all add: except_empty_def)

lemma jsearch_returns: "\<exists>js. fst (search_jobs_jsearch ev net q log) = Inr js"
  using except_empty_returns
  by (auto simp: search_jobs_jsearch_def http_get_json_def split: sum.splits)

lemma remoteok_returns: "\<exists>js. fst (search_jobs_remoteok py net q log) = Inr js"
  using except_empty_returns
  by (auto simp: search_jobs_remoteok_def http_get_json_def split: sum.splits)

lemma adzuna_returns: "\<exists>js. fst (search_jobs_adzuna ev net q log) = Inr js"
  using except_empty_returns
  by (auto simp: search_jobs_adzuna_def http_get_json_def split: sum.splits)

text \<open>
  Claim C8. Each of the three searches returns a list whatever the network does; it returns
  the empty list when the request or the decoding of its body fails and when the body does not
  have the shape the adapter reads; and the two searches that need credentials return the
  empty list with the request log unchanged when a credential is unset or empty.
\<close>

theorem adapters_never_raise:
  "(\<exists>js. fst (search_jobs_jsearch ev net q log) = Inr js)
   \<and> (\<exists>js. fst (search_jobs_remoteok py net q log) = Inr js)
   \<and> (\<exists>js. fst (search_jobs_adzuna ev net q log) = Inr js)
   \<and> (net log (jsearch_request ev q) = Inl e
        \<or> (\<exists>data. net log (jsearch_request ev q) = Inr data \<and> jsearch_jobs data = Inl e) \<longrightarrow>
       fst (search_jobs_jsearch ev net q log) = Inr [])
   \<and> (net log remoteok_request = Inl e
        \<or> (\<exists>data. net log remoteok_request = Inr data \<and> remoteok_jobs py q data = Inl e) \<longrightarrow>
       fst (search_jobs_remoteok py net q log) = Inr [])
   \<and> (net log (adzuna_request ev q) = Inl e
        \<or> (\<exists>data. net log (adzuna_request ev q) = Inr data \<and> adzuna_jobs data = Inl e) \<longrightarrow>
       fst (search_jobs_adzuna ev net q log) = Inr [])
   \<and> (unset (RAPIDAPI_KEY ev) \<longrightarrow> search_jobs_jsearch ev net q log = (Inr [], log))
   \<and> (unset (ADZUNA_APP_ID ev) \<or> unset (ADZUNA_API_KEY ev) \<longrightarrow>
       search_jobs_adzuna ev net q log = (Inr [], log))"
proof (intro conjI impI)
  show "\<exists>js. fst (search_jobs_jsearch ev net q log) = Inr js"
    by (rule jsearch_returns)
  show "\<exists>js. fst (search_jobs_remoteok py net q log) = Inr js"
    by (rule remoteok_returns)
  show "\<exists>js. fst (search_jobs_adzuna ev net q log) = Inr js"
    by (rule adzuna_returns)
next
  assume "net log (jsearch_request ev q) = Inl e
        \<or> (\<exists>data. net log (jsearch_request ev q) = Inr data \<and> jsearch_jobs data = Inl e)"
  then show "fst (search_jobs_jsearch ev net q log) = Inr []"
    by (auto simp: search_jobs_jsearch_def http_get_json_def except_empty_def)
next
  assume "net log remoteok_request = Inl e
        \<or> (\<exists>data. net log remoteok_request = Inr data \<and> remoteok_jobs py q data = Inl e)"
  then show "fst (search_jobs_remoteok py net q log) = Inr []"
    by (auto simp: search_jobs_remoteok_def http_get_json_def except_empty_def)
next
  assume "net log (adzuna_request ev q) = Inl e
        \<or> (\<exists>data. net log (adzuna_request ev q) = Inr data \<and> adzuna_jobs data = Inl e)"
  then show "fst (search_jobs_adzuna ev net q log) = Inr []"
    by (auto simp: search_jobs_adzuna_def http_get_json_def except_empty_def)
next
  assume "unset (RAPIDAPI_KEY ev)"
  then show "search_jobs_jsearch ev net q log = (Inr [], log)"
    by (simp add: search_jobs_jsearch_def)
next
  assume "unset (ADZUNA_APP_ID ev) \<or> unset (ADZUNA_API_KEY ev)"
  then show "search_jobs_adzuna ev net q log = (Inr [], log)"
    by (simp add: search_jobs_adzuna_def)
qed

theorem adapters_never_raise_witness:
  "search_jobs_jsearch no_keys example_network (lit ''AI Engineer'') [] = (Inr [], [])
   \<and> search_jobs_adzuna no_keys example_network (lit ''AI Engineer'') [] = (Inr [], [])
   \<and> fst (search_jobs_remoteok example_python down_network (lit ''AI Engineer'') []) = Inr []
   \<and> fst (search_jobs_jsearch all_keys down_network (lit ''AI Engineer'') []) = Inr []
   \<and> fst (search_jobs_adzuna all_keys example_network (lit ''AI Engineer'') []) = Inr []"
proof -
  note n = adapters_never_raise
             [where ev = no_keys and net = example_network and q = "lit ''AI Engineer''"
                and log = "[]",
              THEN conjunct2, THEN conjunct2, THEN conjunct2, THEN conjunct2, THEN conjunct2,
              THEN conjunct2]
  note d = adapters_never_raise
             [where ev = all_keys and net = down_network and q = "lit ''AI Engineer''"
                and log = "[]" and e = RequestException and py = example_python,
              THEN conjunct2, THEN conjunct2, THEN conjunct2]
  note p = adapters_never_raise
             [where ev = all_keys and net = example_network and q = "lit ''AI Engineer''"
                and log = "[]" and e = AttributeError,
              THEN conjunct2, THEN conjunct2, THEN conjunct2, THEN conjunct2, THEN conjunct2,
              THEN conjunct1]
  have k1: "unset (RAPIDAPI_KEY no_keys)"
    by (simp add: no_keys_def unset_def)
  have k2: "unset (ADZUNA_APP_ID no_keys) \<or> unset (ADZUNA_API_KEY no_keys)"
    by (simp add: no_keys_def unset_def)
  have d1: "down_network [] remoteok_request = Inl RequestException
        \<or> (\<exists>data. down_network [] remoteok_request = Inr data
                   \<and> remoteok_jobs example_python (lit ''AI Engineer'') data
                       = Inl RequestException)"
    by (simp add: down_network_def)
  have d2: "down_network [] (jsearch_request all_keys (lit ''AI Engineer'')) = Inl RequestException
        \<or> (\<exists>data. down_network [] (jsearch_request all_keys (lit ''AI Engineer'')) = Inr data
                   \<and> jsearch_jobs data = Inl RequestException)"
    by (simp add: down_network_def)
  have p0: "example_network [] (adzuna_request all_keys (lit ''AI Engineer''))
              = Inr (PStr (lit ''<html>''))
            \<and> adzuna_jobs (PStr (lit ''<html>'')) = Inl AttributeError"
    by code_simp
  then have p1: "example_network [] (adzuna_request all_keys (lit ''AI Engineer''))
                   = Inl AttributeError
        \<or> (\<exists>data. example_network [] (adzuna_request all_keys (lit ''AI Engineer'')) = Inr data
                   \<and> adzuna_jobs data = Inl AttributeError)"
    by simp
  have 1: "search_jobs_jsearch no_keys example_network (lit ''AI Engineer'') [] = (Inr [], [])"
    by (rule n [THEN conjunct1, THEN mp, OF k1])
  have 2: "search_jobs_adzuna no_keys example_network (lit ''AI Engineer'') [] = (Inr [], [])"
    by (rule n [THEN conjunct2, THEN mp, OF k2])
  have 3: "fst (search_jobs_remoteok example_python down_network (lit ''AI Engineer'') []) = Inr []"
    by (rule d [THEN conjunct2, THEN conjunct1, THEN mp, OF d1])
  have 4: "fst (search_jobs_jsearch all_keys down_network (lit ''AI Engineer'') []) = Inr []"
    by (rule d [THEN conjunct1, THEN mp, OF d2])
  have 5: "fst (search_jobs_adzuna all_keys example_network (lit ''AI Engineer'') []) = Inr []"
    by (rule p [THEN mp, OF p1])
  show ?thesis
    by (intro conjI 1 2 3 4 5)
qed

subsection \<open>Cache\<close>

text \<open>
  Claim C6, as the code has it. A save that succeeds stores the jobs with the time of the save.
  For \<open>max_age_hours\<close> whose whole days lie within 999999999 either way, loading gives back
  the saved jobs when at most that many hours have passed and the empty list when more have;
  loading an absent file gives the empty list; loading a file whose content does not decode
  raises.
\<close>

theorem cache_round_trip:
  "(save_jobs_cache True t0 J f0 = Inr (Saved t0 J))
   \<and> (- 999999999 \<le> h div 24 \<and> h div 24 \<le> 999999999 \<longrightarrow>
        (t1 - t0 \<le> h * 3600000000 \<longrightarrow> load_jobs_cache t1 h (Saved t0 J) = Inr J)
      \<and> (t1 - t0 > h * 3600000000 \<longrightarrow> load_jobs_cache t1 h (Saved t0 J) = Inr []))
   \<and> load_jobs_cache t1 h Absent = Inr []
   \<and> load_jobs_cache t1 h Garbled = Inl JSONDecodeError"
  by (simp add: save_jobs_cache_def load_jobs_cache_def timedelta_hours_def)

theorem cache_round_trip_witness:
  "load_jobs_cache (23 * 3600000000) 24 (Saved 0 example_ranked) = Inr example_ranked
   \<and> load_jobs_cache (25 * 3600000000) 24 (Saved 0 example_ranked) = Inr []"
proof -
  have r: "- 999999999 \<le> (24::int) div 24 \<and> (24::int) div 24 \<le> 999999999"
    by simp
  note t = cache_round_trip [THEN conjunct2, THEN conjunct1, THEN mp, OF r]
  have a: "23 * 3600000000 - 0 \<le> (24::int) * 3600000000" by simp
  have b: "25 * 3600000000 - 0 > (24::int) * 3600000000" by simp
  have 1: "load_jobs_cache (23 * 3600000000) 24 (Saved 0 example_ranked) = Inr example_ranked"
    by (rule t [THEN conjunct1, THEN mp, OF a])
  have 2: "load_jobs_cache (25 * 3600000000) 24 (Saved 0 example_ranked) = Inr []"
    by (rule t [THEN conjunct2, THEN mp, OF b])
  show ?thesis by (intro conjI 1 2)
qed

text \<open>
  A cache file whose content does not decode makes the load raise rather than return the empty
  list, and so does a \<open>max_age_hours\<close> beyond the range of \<open>timedelta\<close>.
\<close>

theorem cache_unreadable_raises:
  "load_jobs_cache 0 24 Garbled = Inl JSONDecodeError
   \<and> load_jobs_cache 0 24 Garbled \<noteq> Inr []
   \<and> load_jobs_cache 0 24000000000 (Saved 0 example_ranked) = Inl OverflowError
   \<and> load_jobs_cache 0 24000000000 (Saved 0 example_ranked) \<noteq> Inr example_ranked"
  by (simp add: load_jobs_cache_def timedelta_hours_def)

subsection \<open>Top level\<close>

lemma lookup_st: "lookup_name ''st'' = Inl NameError"
  by (simp add: lookup_name_def module_globals_def builtin_functions_def)

lemma fetch_loop_returns:
  "\<exists>all_jobs' log'. fetch_loop py ev net ts all_jobs log = (Inr all_jobs', log')"
proof (induction ts arbitrary: all_jobs log)
  case Nil
  show ?case by simp
next
  case (Cons t ts)
  obtain js1 log1 where 1: "search_jobs_jsearch ev net t log = (Inr js1, log1)"
    using jsearch_returns [of ev net t log] by (cases "search_jobs_jsearch ev net t log") auto
  obtain js2 log2 where 2: "search_jobs_remoteok py net t log1 = (Inr js2, log2)"
    using remoteok_returns [of py net t log1]
    by (cases "search_jobs_remoteok py net t log1") auto
  obtain js3 log3 where 3: "search_jobs_adzuna ev net t log2 = (Inr js3, log3)"
    using adzuna_returns [of ev net t log2] by (cases "search_jobs_adzuna ev net t log2") auto
  show ?case
    using Cons.IH [of "all_jobs @ js1 @ js2 @ js3" log3] by (simp add: 1 2 3)
qed

text \<open>
  Claim C10. \<open>get_recommended_jobs\<close> never returns a value. Fetching always completes; when
  profile extraction, deduplication, ranking and the cache save complete as well, the call has
  written the cache and raises \<open>NameError\<close> at the use of the unbound name \<open>st\<close>.
\<close>

theorem get_recommended_jobs_name_error:
  "(\<forall>r. fst (get_recommended_jobs py ev net writable now ud n w) \<noteq> Inr r)
   \<and> (\<exists>all_jobs log. fetch_loop py ev net ts [] lg = (Inr all_jobs, log))
   \<and> (extract_user_profile py ud = Inr p
      \<and> fetch_loop py ev net (slice_to 3 (job_titles p)) [] (sent w) = (Inr all_jobs, log)
      \<and> dedupe py all_jobs = Inr unique
      \<and> rank_jobs_by_relevance py unique p = Inr ranked
      \<and> save_jobs_cache writable now (slice_to n ranked) (cache w) = Inr f \<longrightarrow>
        get_recommended_jobs py ev net writable now ud n w
          = (Inl NameError, w\<lparr>sent := log, cache := f\<rparr>))"
proof (intro conjI impI allI)
  fix r
  show "fst (get_recommended_jobs py ev net writable now ud n w) \<noteq> Inr r"
    by (simp add: get_recommended_jobs_def lookup_st split: prod.splits sum.splits)
next
  show "\<exists>all_jobs log. fetch_loop py ev net ts [] lg = (Inr all_jobs, log)"
    by (rule fetch_loop_returns)
next
  assume "extract_user_profile py ud = Inr p
      \<and> fetch_loop py ev net (slice_to 3 (job_titles p)) [] (sent w) = (Inr all_jobs, log)
      \<and> dedupe py all_jobs = Inr unique
      \<and> rank_jobs_by_relevance py unique p = Inr ranked
      \<and> save_jobs_cache writable now (slice_to n ranked) (cache w) = Inr f"
  then show "get_recommended_jobs py ev net writable now ud n w
          = (Inl NameError, w\<lparr>sent := log, cache := f\<rparr>)"
    by (simp add: get_recommended_jobs_def lookup_st)
qed

theorem get_recommended_jobs_name_error_witness:
  "fst (get_recommended_jobs example_python all_keys example_network True 0 empty_data 15
          fresh_world)
     = Inl NameError
   \<and> cache (snd (get_recommended_jobs example_python all_keys example_network True 0 empty_data
                   15 fresh_world))
     = Saved 0 [scored initech_job [''python'', ''ai''] 25, scored globex_job [''ai''] 20]"
proof -
  let ?ranked = "[scored initech_job [''python'', ''ai''] 25, scored globex_job [''ai''] 20]"
  define p where "p = \<lparr>skills = [], experience_years = 0, education_level = PStr [],
                       preferred_locations = [lit ''Remote'', lit ''India''],
                       job_titles = [lit ''Software Engineer'', lit ''AI Engineer'']\<rparr>"
  let ?fetch = "fetch_loop example_python all_keys example_network
                  (slice_to 3 (job_titles p)) [] (sent fresh_world)"
  have x: "extract_user_profile example_python empty_data = Inr p"
    unfolding p_def by code_simp
  have "fst ?fetch = Inr [globex_job, globex_job, initech_job]"
    unfolding p_def by code_simp
  then obtain log where a: "?fetch = (Inr [globex_job, globex_job, initech_job], log)"
    by (cases ?fetch) simp
  have b: "dedupe example_python [globex_job, globex_job, initech_job]
             = Inr [globex_job, initech_job]"
    by code_simp
  have c: "rank_jobs_by_relevance example_python [globex_job, initech_job] p = Inr ?ranked"
    unfolding p_def by code_simp
  have d: "save_jobs_cache True 0 (slice_to 15 ?ranked) (cache fresh_world) = Inr (Saved 0 ?ranked)"
    by (simp add: save_jobs_cache_def slice_to_def)
  have "get_recommended_jobs example_python all_keys example_network True 0 empty_data 15
          fresh_world
          = (Inl NameError, fresh_world\<lparr>sent := log, cache := Saved 0 ?ranked\<rparr>)"
    by (rule get_recommended_jobs_name_error
          [THEN conjunct2, THEN conjunct2, THEN mp,
           OF conjI [OF x conjI [OF a conjI [OF b conjI [OF c d]]]]])
  then show ?thesis by simp
qed

subsection \<open>Profile\<close>


lemma and_then_Inr: "r = Inr x \<Longrightarrow> and_then r f = f x"
  by (simp add: and_then_def)















lemma null_title_raises:
  "extract_user_profile example_python null_title_data = Inl AttributeError"
  by code_simp


end
